theory Spec2Isabelle
  imports Main
begin

section \<open>JavaScript values\<close>

text \<open>
  The connector of \<^verbatim>\<open>src/connections/Xbox/index.ts\<close> handles JSON that it never
  validates: the bodies that \<^verbatim>\<open>res.json()\<close> returns are used as they come. They are
  modelled as untyped JavaScript values. An object is the list of its own properties in
  order, read by key (the first entry of a key is the one that is read; a parsed object has
  each key once). Numbers are restricted to integers, printed in decimal as JavaScript
  prints an integer below \<^verbatim>\<open>1e21\<close>: the connector only tests a number for truthiness
  and prints it.
\<close>

datatype jsval =
    JUndefined
  | JNull
  | JBool bool
  | JNum int
  | JStr string
  | JArr "jsval list"
  | JObj "(string \<times> jsval) list"

text \<open>
  What the connector can throw, or find in a rejected promise. The constants of
  \<^verbatim>\<open>DiscordApiErrors\<close> are declared outside this source file; the three that the
  connector and its base class name are taken as three different values.
\<close>

datatype api_error = GENERAL_ERROR | INVALID_OAUTH_TOKEN | INVALID_OAUTH_STATE

datatype js_error =
    DiscordApiError api_error  \<comment> \<open>\<^verbatim>\<open>throw DiscordApiErrors.X\<close>\<close>
  | ApiError string nat nat    \<comment> \<open>\<^verbatim>\<open>new ApiError(message, code, httpStatus)\<close>\<close>
  | JsError jsval              \<comment> \<open>\<^verbatim>\<open>new Error(x)\<close>\<close>
  | TypeError                  \<comment> \<open>a property read on \<^verbatim>\<open>null\<close> or \<^verbatim>\<open>undefined\<close>\<close>
  | FetchError string          \<comment> \<open>\<^verbatim>\<open>fetch\<close> rejected: no response arrived\<close>
  | SyntaxError                \<comment> \<open>\<^verbatim>\<open>res.json()\<close> rejected: the body is not JSON\<close>
  | OtherError string          \<comment> \<open>anything a collaborator outside this file throws\<close>

subsection \<open>Printing\<close>

definition digit_char :: "nat \<Rightarrow> char" where
  "digit_char d = ''0123456789'' ! d"

fun show_nat :: "nat \<Rightarrow> string" where
  "show_nat n = (if n < 10 then [digit_char n] else show_nat (n div 10) @ [digit_char (n mod 10)])"

declare show_nat.simps [simp del]

definition show_int :: "int \<Rightarrow> string" where
  "show_int i = (if i < 0 then CHR ''-'' # show_nat (nat (- i)) else show_nat (nat i))"

fun join_with :: "string \<Rightarrow> string list \<Rightarrow> string" where
  "join_with sep [] = []"
| "join_with sep [s] = s"
| "join_with sep (s # t # ss) = s @ sep @ join_with sep (t # ss)"

text \<open>
  \<^verbatim>\<open>String(v)\<close>, which a template literal, \<^verbatim>\<open>URLSearchParams\<close> and
  \<^verbatim>\<open>searchParams.append\<close> apply to a value that is not a string. An array prints its
  elements joined by commas, \<^verbatim>\<open>null\<close> and \<^verbatim>\<open>undefined\<close> elements as nothing.
\<close>

fun to_string :: "jsval \<Rightarrow> string" where
  "to_string JUndefined = ''undefined''"
| "to_string JNull = ''null''"
| "to_string (JBool b) = (if b then ''true'' else ''false'')"
| "to_string (JNum n) = show_int n"
| "to_string (JStr s) = s"
| "to_string (JArr xs) =
     join_with '',''
       (map (\<lambda>x. if x = JUndefined \<or> x = JNull then [] else to_string x) xs)"
| "to_string (JObj kvs) = ''[object Object]''"

subsection \<open>Reading\<close>

text \<open>\<^verbatim>\<open>if (v)\<close>: the falsy values are undefined, null, false, 0 and the empty string.\<close>

fun truthy :: "jsval \<Rightarrow> bool" where
  "truthy JUndefined = False"
| "truthy JNull = False"
| "truthy (JBool b) = b"
| "truthy (JNum n) = (n \<noteq> 0)"
| "truthy (JStr s) = (s \<noteq> [])"
| "truthy (JArr xs) = True"
| "truthy (JObj kvs) = True"

text \<open>
  \<^verbatim>\<open>v.key\<close> for a key that is a name: a TypeError on null and undefined, the own
  property of an object, \<^verbatim>\<open>length\<close> of a string or an array, and undefined otherwise.
\<close>

fun get_prop :: "jsval \<Rightarrow> string \<Rightarrow> js_error + jsval" where
  "get_prop JUndefined k = Inl TypeError"
| "get_prop JNull k = Inl TypeError"
| "get_prop (JObj kvs) k = (case map_of kvs k of None \<Rightarrow> Inr JUndefined | Some v \<Rightarrow> Inr v)"
| "get_prop (JStr s) k = (if k = ''length'' then Inr (JNum (int (length s))) else Inr JUndefined)"
| "get_prop (JArr xs) k = (if k = ''length'' then Inr (JNum (int (length xs))) else Inr JUndefined)"
| "get_prop (JBool b) k = Inr JUndefined"
| "get_prop (JNum n) k = Inr JUndefined"

text \<open>
  \<^verbatim>\<open>v[i]\<close> for a number \<open>i\<close>: the element of an array or the character of a string
  when there is one, the property named by the digits of \<open>i\<close> in an object, undefined
  otherwise. Reading past the end of an array is not an error in JavaScript: it gives
  undefined.
\<close>

fun get_index :: "jsval \<Rightarrow> nat \<Rightarrow> js_error + jsval" where
  "get_index JUndefined i = Inl TypeError"
| "get_index JNull i = Inl TypeError"
| "get_index (JArr xs) i = (if i < length xs then Inr (xs ! i) else Inr JUndefined)"
| "get_index (JStr s) i = (if i < length s then Inr (JStr [s ! i]) else Inr JUndefined)"
| "get_index (JObj kvs) i = (case map_of kvs (show_nat i) of None \<Rightarrow> Inr JUndefined | Some v \<Rightarrow> Inr v)"
| "get_index (JBool b) i = Inr JUndefined"
| "get_index (JNum n) i = Inr JUndefined"

text \<open>
  The own enumerable properties that \<^verbatim>\<open>{ ...v }\<close> copies: those of an object, the
  indexed elements of an array, the indexed characters of a string, none of anything else.
\<close>

definition indexed :: "jsval list \<Rightarrow> (string \<times> jsval) list" where
  "indexed xs = zip (map show_nat [0 ..< length xs]) xs"

fun own_props :: "jsval \<Rightarrow> (string \<times> jsval) list" where
  "own_props (JObj kvs) = kvs"
| "own_props (JArr xs) = indexed xs"
| "own_props (JStr s) = indexed (map (\<lambda>c. JStr [c]) s)"
| "own_props v = []"

text \<open>
  \<^verbatim>\<open>{ ...v, key: x }\<close>: a property that the spread has already defined keeps its
  place and takes the new value; a new one comes last.
\<close>

fun set_prop :: "string \<Rightarrow> jsval \<Rightarrow> (string \<times> jsval) list \<Rightarrow> (string \<times> jsval) list" where
  "set_prop k x [] = [(k, x)]"
| "set_prop k x ((k', v) # kvs) = (if k' = k then (k, x) # kvs else (k', v) # set_prop k x kvs)"

section \<open>The runtime library\<close>

text \<open>
  Strings are byte strings (UTF-8); the length and the indexed characters of a string are
  JavaScript's for ASCII text. \<^verbatim>\<open>Buffer.from(s).toString("base64")\<close> is standard
  base64 with padding.
\<close>

definition b64_char :: "nat \<Rightarrow> char" where
  "b64_char n = ''ABCDEFGHIJKLMNOPQRSTUVWXYZabcdefghijklmnopqrstuvwxyz0123456789+/'' ! n"

fun base64_bytes :: "nat list \<Rightarrow> string" where
  "base64_bytes [] = []"
| "base64_bytes [a] =
     [b64_char (a div 4), b64_char ((a mod 4) * 16), CHR ''='', CHR ''='']"
| "base64_bytes [a, b] =
     [b64_char (a div 4), b64_char ((a mod 4) * 16 + b div 16), b64_char ((b mod 16) * 4),
      CHR ''='']"
| "base64_bytes (a # b # c # bs) =
     [b64_char (a div 4), b64_char ((a mod 4) * 16 + b div 16),
      b64_char ((b mod 16) * 4 + c div 64), b64_char (c mod 64)] @ base64_bytes bs"

definition base64 :: "string \<Rightarrow> string" where
  "base64 s = base64_bytes (map of_char s)"

text \<open>
  The serializer of \<^verbatim>\<open>application/x-www-form-urlencoded\<close>, which both
  \<^verbatim>\<open>url.searchParams\<close> and a \<^verbatim>\<open>URLSearchParams\<close> request body go through:
  letters, digits and \<^verbatim>\<open>* - . _\<close> stay, a space becomes \<^verbatim>\<open>+\<close>, every other
  byte becomes \<^verbatim>\<open>%XX\<close>.
\<close>

definition urlencode_keep :: "char \<Rightarrow> bool" where
  "urlencode_keep c \<longleftrightarrow>
     List.member ''ABCDEFGHIJKLMNOPQRSTUVWXYZabcdefghijklmnopqrstuvwxyz0123456789*-._'' c"

definition hex_char :: "nat \<Rightarrow> char" where
  "hex_char n = ''0123456789ABCDEF'' ! n"

definition urlencode_char :: "char \<Rightarrow> string" where
  "urlencode_char c =
     (if c = CHR '' '' then ''+''
      else if urlencode_keep c then [c]
      else [CHR ''%'', hex_char (of_char c div 16), hex_char (of_char c mod 16)])"

definition urlencode :: "string \<Rightarrow> string" where
  "urlencode s = concat (map urlencode_char s)"

definition urlencoded_serialize :: "(string \<times> string) list \<Rightarrow> string" where
  "urlencoded_serialize ps =
     join_with ''&'' (map (\<lambda>(k, v). urlencode k @ ''='' @ urlencode v) ps)"

text \<open>
  A \<^verbatim>\<open>URL\<close> object built from an address without a query: the address and the
  parameters appended to \<^verbatim>\<open>searchParams\<close> since.
\<close>

record URL =
  address :: string
  searchParams :: "(string \<times> string) list"

definition new_URL :: "string \<Rightarrow> URL" where
  "new_URL a = \<lparr>address = a, searchParams = []\<rparr>"

definition searchParams_append :: "string \<Rightarrow> string \<Rightarrow> URL \<Rightarrow> URL" where
  "searchParams_append k v u = u\<lparr>searchParams := searchParams u @ [(k, v)]\<rparr>"

definition url_toString :: "URL \<Rightarrow> string" where
  "url_toString u =
     (if searchParams u = [] then address u
      else address u @ ''?'' @ urlencoded_serialize (searchParams u))"

subsection \<open>HTTP\<close>

datatype request_body =
    FormBody "(string \<times> string) list"  \<comment> \<open>\<^verbatim>\<open>new URLSearchParams({...})\<close>\<close>
  | JsonBody jsval                       \<comment> \<open>\<^verbatim>\<open>JSON.stringify(v)\<close>, as the value \<open>v\<close>\<close>

record request =
  req_url :: string
  req_method :: string
  req_headers :: "(string \<times> string) list"
  req_body :: request_body

text \<open>
  A response: its status, and what \<^verbatim>\<open>res.json()\<close> resolves to (\<open>None\<close> when the
  body is not JSON and \<^verbatim>\<open>res.json()\<close> rejects). \<^verbatim>\<open>res.ok\<close> is a status from 200
  to 299.
\<close>

record response =
  status :: nat
  json :: "jsval option"

definition ok :: "response \<Rightarrow> bool" where
  "ok res \<longleftrightarrow> 200 \<le> status res \<and> status res \<le> 299"

section \<open>The connector's surroundings\<close>

text \<open>
  The record that \<^verbatim>\<open>createConnection\<close> is given, with the fields the connector
  fills. The values read from the Stage C response are stored as they are.
\<close>

record ConnectedAccount =
  token_data :: jsval
  user_id :: string
  external_id :: jsval
  friend_sync :: "bool option"
  name :: jsval
  type :: string

text \<open>
  \<^verbatim>\<open>ConnectionCallbackSchema\<close>, as \<^verbatim>\<open>handleCallback\<close> reads it: \<^verbatim>\<open>params.state\<close>,
  and the optional \<^verbatim>\<open>params.code\<close> and \<^verbatim>\<open>params.friend_sync\<close> (\<open>None\<close> when absent).
\<close>

record ConnectionCallbackSchema =
  params_state :: string
  params_code :: "string option"
  params_friend_sync :: "bool option"

text \<open>
  Everything the connector reads and does not own: the settings
  \<^verbatim>\<open>this.settings.clientId\<close> and \<^verbatim>\<open>clientSecret\<close> (null or undefined when absent),
  \<^verbatim>\<open>Config.get().cdn.endpointPrivate\<close>, the state codec of the base class
  \<^verbatim>\<open>Connection\<close> (\<open>createState\<close>, whether a state validates, \<open>getUserId\<close>), the
  network (what \<^verbatim>\<open>fetch\<close> resolves or rejects with for a request) and the clock
  \<^verbatim>\<open>Date.now()\<close>.
\<close>

record env =
  clientId :: jsval
  clientSecret :: jsval
  endpointPrivate :: jsval
  createState :: "string \<Rightarrow> string"
  state_valid :: "string \<Rightarrow> bool"
  getUserId :: "string \<Rightarrow> js_error + string"
  fetch :: "request \<Rightarrow> js_error + response"
  now :: int

text \<open>
  What an invocation leaves behind: the request sent, the line written by
  \<^verbatim>\<open>console.error\<close> (its fixed text and the error printed after it), the record saved.
\<close>

datatype event =
    Fetch request
  | ConsoleError string js_error
  | Save ConnectedAccount

record world =
  connections :: "ConnectedAccount list"
  events :: "event list"

definition emit :: "event \<Rightarrow> world \<Rightarrow> world" where
  "emit e w = w\<lparr>events := events w @ [e]\<rparr>"

text \<open>
  Modelled from the spec: \<^verbatim>\<open>validateState\<close> of the base class \<^verbatim>\<open>Connection\<close>,
  which is not in this source file. It fails with the invalid-state error when the token
  is malformed, fails its integrity check or has expired, and returns nothing otherwise.
\<close>

definition validateState :: "env \<Rightarrow> string \<Rightarrow> js_error + unit" where
  "validateState env s =
     (if state_valid env s then Inr () else Inl (DiscordApiError INVALID_OAUTH_STATE))"

text \<open>
  Modelled from the spec: \<^verbatim>\<open>hasConnection\<close> and \<^verbatim>\<open>createConnection\<close> of the base
  class \<^verbatim>\<open>Connection\<close>, which are not in this source file. The first asks whether a
  record is stored for the host user, the provider tag of the connector and the external
  id; the second stores the record it is given and returns it.
\<close>

definition hasConnection :: "string \<Rightarrow> ConnectedAccount list \<Rightarrow> string \<Rightarrow> jsval \<Rightarrow> bool" where
  "hasConnection tag store userId externalId =
     list_ex (\<lambda>r. user_id r = userId \<and> type r = tag \<and> external_id r = externalId) store"

definition createConnection ::
  "ConnectedAccount \<Rightarrow> world \<Rightarrow> (js_error + ConnectedAccount option) \<times> world" where
  "createConnection data w =
     (Inr (Some data), emit (Save data) (w\<lparr>connections := connections w @ [data]\<rparr>))"

section \<open>The connector\<close>

text \<open>The fields of \<^verbatim>\<open>XboxConnection\<close>; \<open>connection_id\<close> is its \<^verbatim>\<open>id\<close>.\<close>

definition connection_id :: string where
  "connection_id = ''xbox''"

definition authorizeUrl :: string where
  "authorizeUrl = ''https://login.live.com/oauth20_authorize.srf''"

definition tokenUrl :: string where
  "tokenUrl = ''https://login.live.com/oauth20_token.srf''"

definition userInfoUrl :: string where
  "userInfoUrl = ''https://xsts.auth.xboxlive.com/xsts/authorize''"

definition userAuthUrl :: string where
  "userAuthUrl = ''https://user.auth.xboxlive.com/user/authenticate''"

definition scopes :: "string list" where
  "scopes = [''Xboxlive.signin'', ''Xboxlive.offline_access'']"

text \<open>\<^verbatim>\<open>a || b\<close>.\<close>

definition js_or :: "jsval \<Rightarrow> jsval \<Rightarrow> jsval" where
  "js_or a b = (if truthy a then a else b)"

text \<open>An optional string parameter as the value the code reads: undefined when absent.\<close>

definition js_optional :: "string option \<Rightarrow> jsval" where
  "js_optional x = (case x of None \<Rightarrow> JUndefined | Some s \<Rightarrow> JStr s)"

text \<open>
  \<^verbatim>\<open>p.then(f)\<close> on a promise that has settled: a rejection passes through, a value
  goes to \<open>f\<close>, whose throw is the rejection of the result.
\<close>

definition and_then :: "js_error + 'a \<Rightarrow> ('a \<Rightarrow> js_error + 'b) \<Rightarrow> js_error + 'b" where
  "and_then p f = (case p of Inl e \<Rightarrow> Inl e | Inr v \<Rightarrow> f v)"

definition res_json :: "response \<Rightarrow> js_error + jsval" where
  "res_json res = (case json res of None \<Rightarrow> Inl SyntaxError | Some v \<Rightarrow> Inr v)"

text \<open>
  \<^verbatim>\<open>getAuthorizationUrl\<close>: the \<^verbatim>\<open>URL\<close> object after the six appends, and the string
  the method returns.
\<close>

definition getAuthorizationUrl_url :: "env \<Rightarrow> string \<Rightarrow> URL" where
  "getAuthorizationUrl_url env userId =
     (let state = createState env userId;
          u = new_URL authorizeUrl;
          u = searchParams_append ''client_id'' (to_string (clientId env)) u;
          u = searchParams_append ''redirect_uri''
                (to_string (js_or (endpointPrivate env) (JStr ''http://localhost:3001''))
                   @ ''/connections/'' @ connection_id @ ''/callback'') u;
          u = searchParams_append ''response_type'' ''code'' u;
          u = searchParams_append ''scope'' (join_with '' '' scopes) u;
          u = searchParams_append ''state'' state u;
          u = searchParams_append ''approval_prompt'' ''auto'' u
      in u)"

definition getAuthorizationUrl :: "env \<Rightarrow> string \<Rightarrow> string" where
  "getAuthorizationUrl env userId = url_toString (getAuthorizationUrl_url env userId)"

definition getTokenUrl :: string where
  "getTokenUrl = tokenUrl"

text \<open>Stage B. The request that \<^verbatim>\<open>getUserToken\<close> sends, and the method.\<close>

definition getUserToken_request :: "jsval \<Rightarrow> request" where
  "getUserToken_request token =
     \<lparr>req_url = userAuthUrl,
      req_method = ''POST'',
      req_headers =
        [(''x-xbl-contract-version'', ''3''),
         (''Content-Type'', ''application/json''),
         (''Accept'', ''application/json'')],
      req_body = JsonBody (JObj
        [(''RelyingParty'', JStr ''http://auth.xboxlive.com''),
         (''TokenType'', JStr ''JWT''),
         (''Properties'', JObj
            [(''AuthMethod'', JStr ''RPS''),
             (''SiteName'', JStr ''user.auth.xboxlive.com''),
             (''RpsTicket'', JStr (''d='' @ to_string token))])])\<rparr>"

definition getUserToken :: "env \<Rightarrow> jsval \<Rightarrow> world \<Rightarrow> (js_error + jsval) \<times> world" where
  "getUserToken env token w =
     (let req = getUserToken_request token;
          w1 = emit (Fetch req) w;
          p = and_then
                (and_then (fetch env req)
                   (\<lambda>res. if \<not> ok res then Inl (ApiError ''Failed to get user token'' 0 400)
                          else res_json res))
                (\<lambda>res. get_prop res ''Token'')
      in case p of
           Inl e \<Rightarrow>
             (Inl (DiscordApiError INVALID_OAUTH_TOKEN),
              emit (ConsoleError
                (''Error getting user token for '' @ connection_id @ '' connection: '') e) w1)
         | Inr v \<Rightarrow> (Inr v, w1))"

text \<open>Stage A.\<close>

definition exchangeCode_request :: "env \<Rightarrow> jsval \<Rightarrow> request" where
  "exchangeCode_request env code =
     \<lparr>req_url = getTokenUrl,
      req_method = ''POST'',
      req_headers =
        [(''Accept'', ''application/json''),
         (''Content-Type'', ''application/x-www-form-urlencoded''),
         (''Authorization'',
            ''Basic '' @ base64 (to_string (clientId env) @ '':'' @ to_string (clientSecret env)))],
      req_body = FormBody
        [(''grant_type'', ''authorization_code''),
         (''code'', to_string code),
         (''client_id'', to_string (clientId env)),
         (''redirect_uri'',
            to_string (js_or (endpointPrivate env) (JStr ''http://localhost:3001''))
              @ ''/connections/'' @ connection_id @ ''/callback''),
         (''scope'', join_with '' '' scopes)]\<rparr>"

definition exchangeCode :: "env \<Rightarrow> string \<Rightarrow> jsval \<Rightarrow> world \<Rightarrow> (js_error + jsval) \<times> world" where
  "exchangeCode env state code w =
     (case validateState env state of
        Inl e \<Rightarrow> (Inl e, w)
      | Inr _ \<Rightarrow>
          (let req = exchangeCode_request env code;
               w1 = emit (Fetch req) w;
               p = and_then
                     (and_then (fetch env req)
                        (\<lambda>res. if \<not> ok res then Inl (ApiError ''Failed to exchange code'' 0 400)
                               else res_json res))
                     (\<lambda>res. case get_prop res ''error'' of
                              Inl e \<Rightarrow> Inl e
                            | Inr err \<Rightarrow>
                                if truthy err
                                then and_then (get_prop res ''error_description'')
                                       (\<lambda>d. Inl (JsError d))
                                else Inr res)
           in case p of
                Inl e \<Rightarrow>
                  (Inl (DiscordApiError GENERAL_ERROR),
                   emit (ConsoleError
                     (''Error exchanging code for '' @ connection_id @ '' connection: '') e) w1)
              | Inr v \<Rightarrow> (Inr v, w1)))"

text \<open>Stage C.\<close>

definition getUser_request :: "jsval \<Rightarrow> request" where
  "getUser_request token =
     \<lparr>req_url = url_toString (new_URL userInfoUrl),
      req_method = ''POST'',
      req_headers =
        [(''x-xbl-contract-version'', ''3''),
         (''Content-Type'', ''application/json''),
         (''Accept'', ''application/json'')],
      req_body = JsonBody (JObj
        [(''RelyingParty'', JStr ''http://xboxlive.com''),
         (''TokenType'', JStr ''JWT''),
         (''Properties'', JObj
            [(''UserTokens'', JArr [token]),
             (''SandboxId'', JStr ''RETAIL'')])])\<rparr>"

definition getUser :: "env \<Rightarrow> jsval \<Rightarrow> world \<Rightarrow> (js_error + jsval) \<times> world" where
  "getUser env token w =
     (let req = getUser_request token;
          w1 = emit (Fetch req) w;
          p = and_then
                (and_then (fetch env req)
                   (\<lambda>res. if \<not> ok res then Inl (ApiError ''Failed to fetch user'' 0 400)
                          else res_json res))
                (\<lambda>res. case get_prop res ''error'' of
                         Inl e \<Rightarrow> Inl e
                       | Inr err \<Rightarrow>
                           if truthy err
                           then and_then (get_prop res ''error_description'')
                                  (\<lambda>d. Inl (JsError d))
                           else Inr res)
      in case p of
           Inl e \<Rightarrow>
             (Inl (DiscordApiError GENERAL_ERROR),
              emit (ConsoleError
                (''Error fetching user for '' @ connection_id @ '' connection: '') e) w1)
         | Inr v \<Rightarrow> (Inr v, w1))"

text \<open>\<^verbatim>\<open>userInfo.DisplayClaims.xui[0].key\<close>, read left to right.\<close>

definition first_claim :: "jsval \<Rightarrow> string \<Rightarrow> js_error + jsval" where
  "first_claim userInfo k =
     and_then (and_then (and_then (get_prop userInfo ''DisplayClaims'')
       (\<lambda>d. get_prop d ''xui''))
       (\<lambda>x. get_index x 0))
       (\<lambda>c. get_prop c k)"

text \<open>
  \<^verbatim>\<open>handleCallback\<close>. An await of a rejected promise rejects the whole call; so does
  a TypeError thrown while the arguments of \<^verbatim>\<open>hasConnection\<close> or the fields of the
  record are read. The result \<open>None\<close> is \<^verbatim>\<open>null\<close>.
\<close>

definition handleCallback ::
  "env \<Rightarrow> ConnectionCallbackSchema \<Rightarrow> world \<Rightarrow> (js_error + ConnectedAccount option) \<times> world" where
  "handleCallback env params w =
     (case getUserId env (params_state params) of
        Inl e \<Rightarrow> (Inl e, w)
      | Inr userId \<Rightarrow>
     (case exchangeCode env (params_state params) (js_optional (params_code params)) w of
        (Inl e, w1) \<Rightarrow> (Inl e, w1)
      | (Inr tokenData, w1) \<Rightarrow>
     (case get_prop tokenData ''access_token'' of
        Inl e \<Rightarrow> (Inl e, w1)
      | Inr access_token \<Rightarrow>
     (case getUserToken env access_token w1 of
        (Inl e, w2) \<Rightarrow> (Inl e, w2)
      | (Inr userToken, w2) \<Rightarrow>
     (case getUser env userToken w2 of
        (Inl e, w3) \<Rightarrow> (Inl e, w3)
      | (Inr userInfo, w3) \<Rightarrow>
     (case first_claim userInfo ''xid'' of
        Inl e \<Rightarrow> (Inl e, w3)
      | Inr xid \<Rightarrow>
          if hasConnection connection_id (connections w3) userId xid then (Inr None, w3)
          else
     (case first_claim userInfo ''xid'' of
        Inl e \<Rightarrow> (Inl e, w3)
      | Inr external_id' \<Rightarrow>
     (case first_claim userInfo ''gtg'' of
        Inl e \<Rightarrow> (Inl e, w3)
      | Inr gtg \<Rightarrow>
          createConnection
            \<lparr>token_data =
               JObj (set_prop ''fetched_at'' (JNum (now env)) (own_props tokenData)),
             user_id = userId,
             external_id = external_id',
             friend_sync = params_friend_sync params,
             name = gtg,
             type = connection_id\<rparr> w3))))))))"

section \<open>What a run leaves behind\<close>

text \<open>
  The events that a run from \<open>w\<close> to \<open>w'\<close> has added, the addresses it has sent
  requests to, in order, and the records it has saved, in order.
\<close>

definition new_events :: "world \<Rightarrow> world \<Rightarrow> event list" where
  "new_events w w' = drop (length (events w)) (events w')"

fun fetched_urls :: "event list \<Rightarrow> string list" where
  "fetched_urls [] = []"
| "fetched_urls (Fetch r # es) = req_url r # fetched_urls es"
| "fetched_urls (ConsoleError m x # es) = fetched_urls es"
| "fetched_urls (Save r # es) = fetched_urls es"

fun saves :: "event list \<Rightarrow> ConnectedAccount list" where
  "saves [] = []"
| "saves (Save r # es) = r # saves es"
| "saves (Fetch r # es) = saves es"
| "saves (ConsoleError m x # es) = saves es"

definition no_write :: "world \<Rightarrow> world \<Rightarrow> bool" where
  "no_write w w' \<longleftrightarrow>
     connections w' = connections w \<and> (\<exists>es. events w' = events w @ es \<and> saves es = [])"

fun form_fields :: "request_body \<Rightarrow> (string \<times> string) list" where
  "form_fields (FormBody ps) = ps"
| "form_fields (JsonBody v) = []"

definition param_values :: "string \<Rightarrow> (string \<times> string) list \<Rightarrow> string list" where
  "param_values k ps = map snd (filter (\<lambda>p. fst p = k) ps)"

section \<open>Example surroundings\<close>

text \<open>
  The end-to-end scenario of the specification: the state \<^verbatim>\<open>state-u1\<close> is valid for
  the user \<^verbatim>\<open>u1\<close>, and the three endpoints answer as given.
\<close>

definition ok_response :: "jsval \<Rightarrow> js_error + response" where
  "ok_response v = Inr \<lparr>status = 200, json = Some v\<rparr>"

definition scenario_fetch ::
  "(js_error + response) \<Rightarrow> (js_error + response) \<Rightarrow> (js_error + response) \<Rightarrow>
   request \<Rightarrow> js_error + response" where
  "scenario_fetch a b c req =
     (if req_url req = tokenUrl then a
      else if req_url req = userAuthUrl then b
      else if req_url req = userInfoUrl then c
      else Inl (FetchError ''no route''))"

definition scenario_env ::
  "(js_error + response) \<Rightarrow> (js_error + response) \<Rightarrow> (js_error + response) \<Rightarrow> env" where
  "scenario_env a b c =
     \<lparr>clientId = JStr ''cid'',
      clientSecret = JStr ''secret'',
      endpointPrivate = JNull,
      createState = (\<lambda>u. ''state-'' @ u),
      state_valid = (\<lambda>s. s = ''state-u1''),
      getUserId = (\<lambda>s. if s = ''state-u1'' then Inr ''u1''
                        else Inl (DiscordApiError INVALID_OAUTH_STATE)),
      fetch = scenario_fetch a b c,
      now = 1700000000000\<rparr>"

definition stage_a_body :: jsval where
  "stage_a_body = JObj [(''access_token'', JStr ''AT1'')]"

definition stage_b_body :: jsval where
  "stage_b_body = JObj [(''Token'', JStr ''ST1'')]"

definition stage_c_body :: jsval where
  "stage_c_body =
     JObj [(''DisplayClaims'',
       JObj [(''xui'', JArr [JObj [(''xid'', JStr ''X1''), (''gtg'', JStr ''Gamer1'')]])])]"

definition happy_env :: env where
  "happy_env =
     scenario_env (ok_response stage_a_body) (ok_response stage_b_body) (ok_response stage_c_body)"

definition u1_callback :: ConnectionCallbackSchema where
  "u1_callback =
     \<lparr>params_state = ''state-u1'', params_code = Some ''abc123'', params_friend_sync = Some True\<rparr>"

definition empty_world :: world where
  "empty_world = \<lparr>connections = [], events = []\<rparr>"

definition u1_record :: ConnectedAccount where
  "u1_record =
     \<lparr>token_data = JObj [(''access_token'', JStr ''AT1''), (''fetched_at'', JNum 1700000000000)],
      user_id = ''u1'',
      external_id = JStr ''X1'',
      friend_sync = Some True,
      name = JStr ''Gamer1'',
      type = ''xbox''\<rparr>"

definition linked_world :: world where
  "linked_world = \<lparr>connections = [u1_record], events = []\<rparr>"

definition happy_stages :: "world \<Rightarrow> world" where
  "happy_stages w =
     emit (Fetch (getUser_request (JStr ''ST1'')))
       (emit (Fetch (getUserToken_request (JStr ''AT1'')))
          (emit (Fetch (exchangeCode_request happy_env (JStr ''abc123''))) w))"

definition created_world :: world where
  "created_world =
     emit (Save u1_record) ((happy_stages empty_world)\<lparr>connections := [u1_record]\<rparr>)"

definition rejected :: "js_error + response" where
  "rejected = Inr \<lparr>status = 401, json = None\<rparr>"

definition stage_a_fails_env :: env where
  "stage_a_fails_env =
     scenario_env rejected (ok_response stage_b_body) (ok_response stage_c_body)"

definition stage_b_fails_env :: env where
  "stage_b_fails_env =
     scenario_env (ok_response stage_a_body) rejected (ok_response stage_c_body)"

definition stage_c_fails_env :: env where
  "stage_c_fails_env =
     scenario_env (ok_response stage_a_body) (ok_response stage_b_body) rejected"

definition no_claims_body :: jsval where
  "no_claims_body = JObj [(''DisplayClaims'', JObj [(''xui'', JArr [])])]"

definition no_claims_env :: env where
  "no_claims_env =
     scenario_env (ok_response stage_a_body) (ok_response stage_b_body) (ok_response no_claims_body)"

definition empty_code_callback :: ConnectionCallbackSchema where
  "empty_code_callback =
     \<lparr>params_state = ''state-u1'', params_code = Some [], params_friend_sync = Some True\<rparr>"

definition no_credentials_env :: env where
  "no_credentials_env = happy_env\<lparr>clientId := JNull, clientSecret := JNull\<rparr>"

definition no_token_env :: env where
  "no_token_env =
     scenario_env (ok_response stage_a_body) (ok_response (JObj [])) (ok_response stage_c_body)"

section \<open>Values\<close>

lemma get_prop_total:
  "get_prop v k = Inr x \<Longrightarrow> \<exists>y. get_prop v k' = Inr y"
  by (cases v) (auto split: option.splits)

lemma map_of_set_prop: "map_of (set_prop k x kvs) = (map_of kvs)(k \<mapsto> x)"
  by (induction kvs) (auto simp: fun_eq_iff)

lemma get_prop_set_prop_same:
  "get_prop (JObj (set_prop k x kvs)) k = Inr x"
  by (simp add: map_of_set_prop)

lemma get_prop_set_prop_other:
  "k' \<noteq> k \<Longrightarrow> get_prop (JObj (set_prop k x kvs)) k' = get_prop (JObj kvs) k'"
  by (simp add: map_of_set_prop)

lemma first_claim_total:
  "first_claim u k = Inr x \<Longrightarrow> \<exists>y. first_claim u k' = Inr y"
  unfolding first_claim_def and_then_def
  by (auto split: sum.splits dest: get_prop_total)

lemma first_claim_empty:
  assumes "get_prop u ''DisplayClaims'' = Inr d" and "get_prop d ''xui'' = Inr (JArr [])"
  shows "first_claim u k = Inl TypeError"
  using assms by (simp add: first_claim_def and_then_def)

lemma base64_null_null: "base64 ''null:null'' = ''bnVsbDpudWxs''"
  by (simp add: base64_def b64_char_def)

section \<open>Events and the store\<close>

lemma fetched_urls_append [simp]: "fetched_urls (xs @ ys) = fetched_urls xs @ fetched_urls ys"
  by (induction xs rule: fetched_urls.induct) simp_all

lemma saves_append [simp]: "saves (xs @ ys) = saves xs @ saves ys"
  by (induction xs rule: saves.induct) simp_all

lemma new_events_append [simp]: "events w' = events w @ es \<Longrightarrow> new_events w w' = es"
  by (simp add: new_events_def)

lemma new_events_same [simp]: "new_events w w = []"
  by (simp add: new_events_def)

lemma events_emit [simp]: "events (emit e w) = events w @ [e]"
  by (simp add: emit_def)

lemma connections_emit [simp]: "connections (emit e w) = connections w"
  by (simp add: emit_def)

lemma no_write_refl [simp]: "no_write w w"
  by (simp add: no_write_def)

lemma no_write_trans: "no_write w w1 \<Longrightarrow> no_write w1 w2 \<Longrightarrow> no_write w w2"
  by (auto simp: no_write_def)

lemma no_write_store: "no_write w w' \<Longrightarrow> connections w' = connections w"
  by (simp add: no_write_def)

lemma no_write_saves: "no_write w w' \<Longrightarrow> saves (new_events w w') = []"
  by (auto simp: no_write_def)

lemma no_write_events: "no_write w w' \<Longrightarrow> \<exists>es. events w' = events w @ es"
  by (auto simp: no_write_def)

lemma createConnection_writes_once:
  assumes "no_write w w3" and "(r, w') = createConnection data w3"
  shows "r = Inr (Some data) \<and> connections w' = connections w @ [data] \<and>
         saves (new_events w w') = [data]"
proof -
  from assms(1) obtain es where es: "events w3 = events w @ es" "saves es = []"
    "connections w3 = connections w"
    by (auto simp: no_write_def)
  from assms(2) have w': "r = Inr (Some data)" "connections w' = connections w3 @ [data]"
    "events w' = events w3 @ [Save data]"
    by (simp_all add: createConnection_def)
  have "events w' = events w @ (es @ [Save data])"
    using es w' by simp
  from new_events_append [OF this] show ?thesis
    using es w' by simp
qed

lemma stage_urls_differ:
  "userInfoUrl \<noteq> tokenUrl" "userInfoUrl \<noteq> userAuthUrl" "userAuthUrl \<noteq> tokenUrl"
  by (simp_all add: userInfoUrl_def tokenUrl_def userAuthUrl_def)

section \<open>The authorization URL\<close>

lemma getAuthorizationUrl_params:
  "searchParams (getAuthorizationUrl_url env userId) =
     [(''client_id'', to_string (clientId env)),
      (''redirect_uri'',
         to_string (js_or (endpointPrivate env) (JStr ''http://localhost:3001''))
           @ ''/connections/'' @ connection_id @ ''/callback''),
      (''response_type'', ''code''),
      (''scope'', join_with '' '' scopes),
      (''state'', createState env userId),
      (''approval_prompt'', ''auto'')]"
  by (simp add: getAuthorizationUrl_url_def searchParams_append_def new_URL_def)

lemma getAuthorizationUrl_string:
  "getAuthorizationUrl env userId =
     authorizeUrl @ ''?'' @ urlencoded_serialize (searchParams (getAuthorizationUrl_url env userId))"
  by (simp add: getAuthorizationUrl_def url_toString_def getAuthorizationUrl_params)
    (simp add: getAuthorizationUrl_url_def searchParams_append_def new_URL_def)

section \<open>Stage A\<close>

lemma exchangeCode_invalid:
  "\<not> state_valid env st \<Longrightarrow>
   exchangeCode env st c w = (Inl (DiscordApiError INVALID_OAUTH_STATE), w)"
  by (simp add: exchangeCode_def validateState_def)

lemma exchangeCode_effect:
  assumes "exchangeCode env st c w = (r, w')"
  obtains es where "events w' = events w @ es" and "connections w' = connections w"
    and "saves es = []"
    and "fetched_urls es = (if state_valid env st then [tokenUrl] else [])"
    and "state_valid env st \<Longrightarrow> \<exists>log. es = Fetch (exchangeCode_request env c) # log"
  using assms
  by (auto simp: exchangeCode_def validateState_def Let_def exchangeCode_request_def getTokenUrl_def
      split: sum.splits if_splits)

lemma exchangeCode_first_request:
  assumes "exchangeCode env st c w = (r, w')" and "state_valid env st"
  shows "\<exists>log. events w' = events w @ Fetch (exchangeCode_request env c) # log"
  using assms(1)
  by (rule exchangeCode_effect) (use assms(2) in auto)

lemma exchangeCode_no_write: "exchangeCode env st c w = (r, w') \<Longrightarrow> no_write w w'"
  by (erule exchangeCode_effect) (auto simp: no_write_def)

lemma exchangeCode_error:
  assumes "exchangeCode env st c w = (Inl e, w')"
  shows "e = (if state_valid env st then DiscordApiError GENERAL_ERROR
              else DiscordApiError INVALID_OAUTH_STATE)"
  using assms
  by (auto simp: exchangeCode_def validateState_def Let_def split: sum.splits if_splits)

lemma exchangeCode_value:
  assumes "exchangeCode env st c w = (Inr v, w')"
  shows "state_valid env st \<and> w' = emit (Fetch (exchangeCode_request env c)) w \<and>
         (\<exists>res err. fetch env (exchangeCode_request env c) = Inr res \<and> ok res \<and> json res = Some v \<and>
            get_prop v ''error'' = Inr err \<and> \<not> truthy err)"
  using assms
  by (auto simp: exchangeCode_def validateState_def Let_def and_then_def res_json_def
      split: sum.splits if_splits option.splits)

lemma exchangeCode_value_readable:
  assumes "exchangeCode env st c w = (Inr v, w')"
  shows "\<exists>y. get_prop v k = Inr y"
  using exchangeCode_value [OF assms] get_prop_total by blast

lemma exchangeCode_ok:
  assumes "state_valid env st" and "fetch env (exchangeCode_request env c) = Inr res"
    and "ok res" and "json res = Some v" and "get_prop v ''error'' = Inr err" and "\<not> truthy err"
  shows "exchangeCode env st c w = (Inr v, emit (Fetch (exchangeCode_request env c)) w)"
  using assms
  by (simp add: exchangeCode_def validateState_def Let_def and_then_def res_json_def)

section \<open>Stage B\<close>

lemma getUserToken_urls:
  assumes "getUserToken env t w = (r, w')"
  obtains es where "events w' = events w @ es" and "connections w' = connections w"
    and "saves es = []" and "fetched_urls es = [userAuthUrl]"
  using assms
  by (auto simp: getUserToken_def Let_def getUserToken_request_def split: sum.splits)

lemma getUserToken_no_write: "getUserToken env t w = (r, w') \<Longrightarrow> no_write w w'"
  by (erule getUserToken_urls) (auto simp: no_write_def)

lemma getUserToken_error:
  assumes "getUserToken env t w = (Inl e, w')"
  shows "e = DiscordApiError INVALID_OAUTH_TOKEN"
  using assms by (auto simp: getUserToken_def Let_def split: sum.splits)

lemma getUserToken_rejected:
  assumes "fetch env (getUserToken_request t) = Inr res"
    and "\<not> ok res \<or> json res = None \<or> json res = Some JNull"
  shows "\<exists>x. getUserToken env t w =
           (Inl (DiscordApiError INVALID_OAUTH_TOKEN),
            emit (ConsoleError (''Error getting user token for '' @ connection_id @ '' connection: '') x)
              (emit (Fetch (getUserToken_request t)) w))"
  using assms
  by (auto simp: getUserToken_def Let_def and_then_def res_json_def)

lemma getUserToken_ok:
  assumes "fetch env (getUserToken_request t) = Inr res"
    and "ok res" and "json res = Some v" and "get_prop v ''Token'' = Inr tok"
  shows "getUserToken env t w = (Inr tok, emit (Fetch (getUserToken_request t)) w)"
  using assms
  by (simp add: getUserToken_def Let_def and_then_def res_json_def)

section \<open>Stage C\<close>

lemma getUser_urls:
  assumes "getUser env t w = (r, w')"
  obtains es where "events w' = events w @ es" and "connections w' = connections w"
    and "saves es = []" and "fetched_urls es = [userInfoUrl]"
  using assms
  by (auto simp: getUser_def Let_def getUser_request_def url_toString_def new_URL_def
      split: sum.splits)

lemma getUser_no_write: "getUser env t w = (r, w') \<Longrightarrow> no_write w w'"
  by (erule getUser_urls) (auto simp: no_write_def)

lemma getUser_error:
  assumes "getUser env t w = (Inl e, w')"
  shows "e = DiscordApiError GENERAL_ERROR"
  using assms by (auto simp: getUser_def Let_def split: sum.splits)

lemma getUser_ok:
  assumes "fetch env (getUser_request t) = Inr res"
    and "ok res" and "json res = Some v" and "get_prop v ''error'' = Inr err" and "\<not> truthy err"
  shows "getUser env t w = (Inr v, emit (Fetch (getUser_request t)) w)"
  using assms
  by (simp add: getUser_def Let_def and_then_def res_json_def)

text \<open>The three stages leave the store alone and send one request each, in order.\<close>

lemma stages_effect:
  assumes "exchangeCode env st c w = (Inr tokenData, w1)"
    and "getUserToken env access_token w1 = (Inr userToken, w2)"
    and "getUser env userToken w2 = (Inr userInfo, w3)"
  obtains es where "events w3 = events w @ es" and "connections w3 = connections w"
    and "saves es = []" and "fetched_urls es = [tokenUrl, userAuthUrl, userInfoUrl]"
proof -
  from assms(1) obtain es1 where a: "events w1 = events w @ es1" "connections w1 = connections w"
    "saves es1 = []" "fetched_urls es1 = (if state_valid env st then [tokenUrl] else [])"
    by (rule exchangeCode_effect)
  from exchangeCode_value [OF assms(1)] have v: "state_valid env st" by simp
  from assms(2) obtain es2 where b: "events w2 = events w1 @ es2" "connections w2 = connections w1"
    "saves es2 = []" "fetched_urls es2 = [userAuthUrl]"
    by (rule getUserToken_urls)
  from assms(3) obtain es3 where c: "events w3 = events w2 @ es3" "connections w3 = connections w2"
    "saves es3 = []" "fetched_urls es3 = [userInfoUrl]"
    by (rule getUser_urls)
  show thesis
  proof (rule that [of "es1 @ es2 @ es3"])
    show "events w3 = events w @ es1 @ es2 @ es3" using a b c by simp
    show "connections w3 = connections w" using a b c by simp
    show "saves (es1 @ es2 @ es3) = []" using a b c by simp
    show "fetched_urls (es1 @ es2 @ es3) = [tokenUrl, userAuthUrl, userInfoUrl]"
      using a b c v by simp
  qed
qed

section \<open>The callback handler, branch by branch\<close>

lemma handleCallback_no_user:
  "getUserId env (params_state params) = Inl e \<Longrightarrow> handleCallback env params w = (Inl e, w)"
  by (simp add: handleCallback_def)

lemma handleCallback_stage_a_fails:
  assumes "getUserId env (params_state params) = Inr userId"
    and "exchangeCode env (params_state params) (js_optional (params_code params)) w = (Inl e, w1)"
  shows "handleCallback env params w = (Inl e, w1)"
  using assms by (simp add: handleCallback_def)

lemma handleCallback_stage_b_fails:
  assumes "getUserId env (params_state params) = Inr userId"
    and "exchangeCode env (params_state params) (js_optional (params_code params)) w = (Inr tokenData, w1)"
    and "get_prop tokenData ''access_token'' = Inr access_token"
    and "getUserToken env access_token w1 = (Inl e, w2)"
  shows "handleCallback env params w = (Inl e, w2)"
  using assms by (simp add: handleCallback_def)

lemma handleCallback_stage_c_fails:
  assumes "getUserId env (params_state params) = Inr userId"
    and "exchangeCode env (params_state params) (js_optional (params_code params)) w = (Inr tokenData, w1)"
    and "get_prop tokenData ''access_token'' = Inr access_token"
    and "getUserToken env access_token w1 = (Inr userToken, w2)"
    and "getUser env userToken w2 = (Inl e, w3)"
  shows "handleCallback env params w = (Inl e, w3)"
  using assms by (simp add: handleCallback_def)

lemma handleCallback_no_claim:
  assumes "getUserId env (params_state params) = Inr userId"
    and "exchangeCode env (params_state params) (js_optional (params_code params)) w = (Inr tokenData, w1)"
    and "get_prop tokenData ''access_token'' = Inr access_token"
    and "getUserToken env access_token w1 = (Inr userToken, w2)"
    and "getUser env userToken w2 = (Inr userInfo, w3)"
    and "first_claim userInfo ''xid'' = Inl e"
  shows "handleCallback env params w = (Inl e, w3)"
  using assms by (simp add: handleCallback_def)

lemma handleCallback_linked:
  assumes "getUserId env (params_state params) = Inr userId"
    and "exchangeCode env (params_state params) (js_optional (params_code params)) w = (Inr tokenData, w1)"
    and "get_prop tokenData ''access_token'' = Inr access_token"
    and "getUserToken env access_token w1 = (Inr userToken, w2)"
    and "getUser env userToken w2 = (Inr userInfo, w3)"
    and "first_claim userInfo ''xid'' = Inr xid"
    and "hasConnection connection_id (connections w3) userId xid"
  shows "handleCallback env params w = (Inr None, w3)"
  using assms by (simp add: handleCallback_def)

lemma handleCallback_creates:
  assumes "getUserId env (params_state params) = Inr userId"
    and "exchangeCode env (params_state params) (js_optional (params_code params)) w = (Inr tokenData, w1)"
    and "get_prop tokenData ''access_token'' = Inr access_token"
    and "getUserToken env access_token w1 = (Inr userToken, w2)"
    and "getUser env userToken w2 = (Inr userInfo, w3)"
    and "first_claim userInfo ''xid'' = Inr xid"
    and "first_claim userInfo ''gtg'' = Inr gtg"
    and "\<not> hasConnection connection_id (connections w3) userId xid"
  shows "handleCallback env params w =
           createConnection
             \<lparr>token_data = JObj (set_prop ''fetched_at'' (JNum (now env)) (own_props tokenData)),
              user_id = userId, external_id = xid,
              friend_sync = params_friend_sync params, name = gtg, type = connection_id\<rparr> w3"
  using assms by (simp add: handleCallback_def)

lemma handleCallback_cases:
  assumes "handleCallback env params w = (r, w')"
  obtains
    (no_user) e where "getUserId env (params_state params) = Inl e" "r = Inl e" "w' = w"
  | (stage_a) userId e where "getUserId env (params_state params) = Inr userId"
      "exchangeCode env (params_state params) (js_optional (params_code params)) w = (Inl e, w')"
      "r = Inl e"
  | (stage_b) userId tokenData w1 access_token e where
      "getUserId env (params_state params) = Inr userId"
      "exchangeCode env (params_state params) (js_optional (params_code params)) w = (Inr tokenData, w1)"
      "get_prop tokenData ''access_token'' = Inr access_token"
      "getUserToken env access_token w1 = (Inl e, w')"
      "r = Inl e"
  | (stage_c) userId tokenData w1 access_token userToken w2 e where
      "getUserId env (params_state params) = Inr userId"
      "exchangeCode env (params_state params) (js_optional (params_code params)) w = (Inr tokenData, w1)"
      "get_prop tokenData ''access_token'' = Inr access_token"
      "getUserToken env access_token w1 = (Inr userToken, w2)"
      "getUser env userToken w2 = (Inl e, w')"
      "r = Inl e"
  | (no_claim) userId tokenData w1 access_token userToken w2 userInfo e where
      "getUserId env (params_state params) = Inr userId"
      "exchangeCode env (params_state params) (js_optional (params_code params)) w = (Inr tokenData, w1)"
      "get_prop tokenData ''access_token'' = Inr access_token"
      "getUserToken env access_token w1 = (Inr userToken, w2)"
      "getUser env userToken w2 = (Inr userInfo, w')"
      "first_claim userInfo ''xid'' = Inl e"
      "r = Inl e"
  | (linked) userId tokenData w1 access_token userToken w2 userInfo xid where
      "getUserId env (params_state params) = Inr userId"
      "exchangeCode env (params_state params) (js_optional (params_code params)) w = (Inr tokenData, w1)"
      "get_prop tokenData ''access_token'' = Inr access_token"
      "getUserToken env access_token w1 = (Inr userToken, w2)"
      "getUser env userToken w2 = (Inr userInfo, w')"
      "first_claim userInfo ''xid'' = Inr xid"
      "hasConnection connection_id (connections w') userId xid"
      "r = Inr None"
  | (created) userId tokenData w1 access_token userToken w2 userInfo w3 xid gtg where
      "getUserId env (params_state params) = Inr userId"
      "exchangeCode env (params_state params) (js_optional (params_code params)) w = (Inr tokenData, w1)"
      "get_prop tokenData ''access_token'' = Inr access_token"
      "getUserToken env access_token w1 = (Inr userToken, w2)"
      "getUser env userToken w2 = (Inr userInfo, w3)"
      "first_claim userInfo ''xid'' = Inr xid"
      "first_claim userInfo ''gtg'' = Inr gtg"
      "\<not> hasConnection connection_id (connections w3) userId xid"
      "(r, w') = createConnection
             \<lparr>token_data = JObj (set_prop ''fetched_at'' (JNum (now env)) (own_props tokenData)),
              user_id = userId, external_id = xid,
              friend_sync = params_friend_sync params, name = gtg, type = connection_id\<rparr> w3"
proof (cases "getUserId env (params_state params)")
  case (Inl e)
  with assms show thesis by (intro no_user [of e]) (simp_all add: handleCallback_def)
next
  case uid: (Inr userId)
  obtain r1 w1 where a: "exchangeCode env (params_state params) (js_optional (params_code params)) w = (r1, w1)"
    by (cases "exchangeCode env (params_state params) (js_optional (params_code params)) w")
  show thesis
  proof (cases r1)
    case (Inl e)
    with assms uid a show thesis by (intro stage_a [of userId e]) (simp_all add: handleCallback_def)
  next
    case (Inr tokenData)
    note a = a [unfolded Inr]
    from exchangeCode_value_readable [OF a] obtain access_token
      where at: "get_prop tokenData ''access_token'' = Inr access_token" by blast
    obtain r2 w2 where b: "getUserToken env access_token w1 = (r2, w2)"
      by (cases "getUserToken env access_token w1")
    show thesis
    proof (cases r2)
      case (Inl e)
      with assms uid a at b show thesis
        by (intro stage_b [of userId tokenData w1 access_token e]) (simp_all add: handleCallback_def)
    next
      case (Inr userToken)
      note b = b [unfolded Inr]
      obtain r3 w3 where c: "getUser env userToken w2 = (r3, w3)"
        by (cases "getUser env userToken w2")
      show thesis
      proof (cases r3)
        case (Inl e)
        with assms uid a at b c show thesis
          by (intro stage_c [of userId tokenData w1 access_token userToken w2 e])
            (simp_all add: handleCallback_def)
      next
        case (Inr userInfo)
        note c = c [unfolded Inr]
        show thesis
        proof (cases "first_claim userInfo ''xid''")
          case (Inl e)
          with assms uid a at b c show thesis
            by (intro no_claim [of userId tokenData w1 access_token userToken w2 userInfo e])
              (simp_all add: handleCallback_def)
        next
          case xid: (Inr xid)
          from first_claim_total [OF xid] obtain gtg
            where gtg: "first_claim userInfo ''gtg'' = Inr gtg" by blast
          show thesis
          proof (cases "hasConnection connection_id (connections w3) userId xid")
            case True
            with assms uid a at b c xid show thesis
              by (intro linked [of userId tokenData w1 access_token userToken w2 userInfo xid])
                (simp_all add: handleCallback_def)
          next
            case False
            with assms uid a at b c xid gtg show thesis
              by (intro created [of userId tokenData w1 access_token userToken w2 userInfo w3 xid gtg])
                (simp_all add: handleCallback_def)
          qed
        qed
      qed
    qed
  qed
qed

lemma handleCallback_first_request:
  assumes run: "handleCallback env params w = (r, w')"
    and uid: "getUserId env (params_state params) = Inr userId"
    and valid: "state_valid env (params_state params)"
  shows "\<exists>log. events w' =
           events w @ Fetch (exchangeCode_request env (js_optional (params_code params))) # log"
proof -
  have later: "\<exists>log. events w' =
      events w @ Fetch (exchangeCode_request env (js_optional (params_code params))) # log"
    if a: "exchangeCode env (params_state params) (js_optional (params_code params)) w = (ra, w1)"
      and q: "\<exists>es. events w' = events w1 @ es" for ra w1
  proof -
    from exchangeCode_first_request [OF a valid] q show ?thesis by auto
  qed
  from run show ?thesis
  proof (cases rule: handleCallback_cases)
    case (no_user e)
    with uid show ?thesis by simp
  next
    case (stage_a userId e)
    then show ?thesis by (intro later [of _ w']) simp_all
  next
    case (stage_b userId tokenData w1 access_token e)
    from stage_b(2) no_write_events [OF getUserToken_no_write [OF stage_b(4)]]
    show ?thesis by (rule later)
  next
    case (stage_c userId tokenData w1 access_token userToken w2 e)
    from getUserToken_no_write [OF stage_c(4)] getUser_no_write [OF stage_c(5)]
    have "no_write w1 w'" by (rule no_write_trans)
    from stage_c(2) no_write_events [OF this] show ?thesis by (rule later)
  next
    case (no_claim userId tokenData w1 access_token userToken w2 userInfo e)
    from getUserToken_no_write [OF no_claim(4)] getUser_no_write [OF no_claim(5)]
    have "no_write w1 w'" by (rule no_write_trans)
    from no_claim(2) no_write_events [OF this] show ?thesis by (rule later)
  next
    case (linked userId tokenData w1 access_token userToken w2 userInfo xid)
    from getUserToken_no_write [OF linked(4)] getUser_no_write [OF linked(5)]
    have "no_write w1 w'" by (rule no_write_trans)
    from linked(2) no_write_events [OF this] show ?thesis by (rule later)
  next
    case (created userId tokenData w1 access_token userToken w2 userInfo w3 xid gtg)
    from getUserToken_no_write [OF created(4)] getUser_no_write [OF created(5)]
    have "no_write w1 w3" by (rule no_write_trans)
    from no_write_events [OF this] obtain es where "events w3 = events w1 @ es" by blast
    moreover from created(9) obtain d where "events w' = events w3 @ [Save d]"
      by (auto simp: createConnection_def)
    ultimately have "\<exists>es. events w' = events w1 @ es" by simp
    with created(2) show ?thesis by (rule later)
  qed
qed

section \<open>Example runs\<close>

lemma scenario_env_fields [simp]:
  "state_valid (scenario_env a b c) s = (s = ''state-u1'')"
  "getUserId (scenario_env a b c) ''state-u1'' = Inr ''u1''"
  "now (scenario_env a b c) = 1700000000000"
  "clientId (scenario_env a b c) = JStr ''cid''"
  "clientSecret (scenario_env a b c) = JStr ''secret''"
  "endpointPrivate (scenario_env a b c) = JNull"
  "createState (scenario_env a b c) u = ''state-'' @ u"
  by (simp_all add: scenario_env_def)

lemma scenario_fetch_routes:
  "fetch (scenario_env a b c) (exchangeCode_request env' code) = a"
  "fetch (scenario_env a b c) (getUserToken_request t) = b"
  "fetch (scenario_env a b c) (getUser_request t) = c"
  by (simp_all add: scenario_env_def scenario_fetch_def exchangeCode_request_def
      getUserToken_request_def getUser_request_def getTokenUrl_def tokenUrl_def userAuthUrl_def
      userInfoUrl_def url_toString_def new_URL_def)

lemma scenario_stage_a:
  assumes "get_prop v ''error'' = Inr err" and "\<not> truthy err"
  shows "exchangeCode (scenario_env (ok_response v) b c) ''state-u1'' code w =
           (Inr v, emit (Fetch (exchangeCode_request (scenario_env (ok_response v) b c) code)) w)"
  by (rule exchangeCode_ok [where res = "\<lparr>status = 200, json = Some v\<rparr>", OF _ _ _ _ assms])
    (simp_all add: scenario_fetch_routes ok_response_def ok_def)

lemma scenario_stage_b:
  assumes "get_prop v ''Token'' = Inr tok"
  shows "getUserToken (scenario_env a (ok_response v) c) t w =
           (Inr tok, emit (Fetch (getUserToken_request t)) w)"
  by (rule getUserToken_ok [where res = "\<lparr>status = 200, json = Some v\<rparr>", OF _ _ _ assms])
    (simp_all add: scenario_fetch_routes ok_response_def ok_def)

lemma scenario_stage_c:
  assumes "get_prop v ''error'' = Inr err" and "\<not> truthy err"
  shows "getUser (scenario_env a b (ok_response v)) t w =
           (Inr v, emit (Fetch (getUser_request t)) w)"
  by (rule getUser_ok [where res = "\<lparr>status = 200, json = Some v\<rparr>", OF _ _ _ assms])
    (simp_all add: scenario_fetch_routes ok_response_def ok_def)

lemma scenario_run:
  "getUserId (scenario_env a b c) (params_state u1_callback) = Inr ''u1''"
  "exchangeCode (scenario_env (ok_response stage_a_body) b c) (params_state u1_callback)
     (js_optional (params_code u1_callback)) w =
     (Inr stage_a_body,
      emit (Fetch (exchangeCode_request (scenario_env (ok_response stage_a_body) b c)
        (JStr ''abc123''))) w)"
  "getUserToken (scenario_env a (ok_response stage_b_body) c) (JStr ''AT1'') w =
     (Inr (JStr ''ST1''), emit (Fetch (getUserToken_request (JStr ''AT1''))) w)"
  "getUser (scenario_env a b (ok_response stage_c_body)) (JStr ''ST1'') w =
     (Inr stage_c_body, emit (Fetch (getUser_request (JStr ''ST1''))) w)"
  by (simp_all add: u1_callback_def js_optional_def scenario_stage_a scenario_stage_b
      scenario_stage_c stage_a_body_def stage_b_body_def stage_c_body_def)

lemma happy_run:
  "getUserId happy_env (params_state u1_callback) = Inr ''u1''"
  "exchangeCode happy_env (params_state u1_callback) (js_optional (params_code u1_callback)) w =
     (Inr stage_a_body, emit (Fetch (exchangeCode_request happy_env (JStr ''abc123''))) w)"
  "get_prop stage_a_body ''access_token'' = Inr (JStr ''AT1'')"
  "getUserToken happy_env (JStr ''AT1'') w = (Inr (JStr ''ST1''), emit (Fetch (getUserToken_request (JStr ''AT1''))) w)"
  "getUser happy_env (JStr ''ST1'') w = (Inr stage_c_body, emit (Fetch (getUser_request (JStr ''ST1''))) w)"
  "first_claim stage_c_body ''xid'' = Inr (JStr ''X1'')"
  "first_claim stage_c_body ''gtg'' = Inr (JStr ''Gamer1'')"
  by (simp_all add: happy_env_def u1_callback_def js_optional_def scenario_stage_a scenario_stage_b
      scenario_stage_c stage_a_body_def stage_b_body_def stage_c_body_def first_claim_def and_then_def)

lemma happy_callback:
  "handleCallback happy_env u1_callback empty_world = (Inr (Some u1_record), created_world)"
proof -
  have "\<not> hasConnection connection_id
      (connections (happy_stages empty_world)) ''u1'' (JStr ''X1'')"
    by (simp add: hasConnection_def happy_stages_def empty_world_def)
  from handleCallback_creates [OF happy_run(1,2,3,4,5,6,7), of empty_world]
    this [unfolded happy_stages_def]
  show ?thesis
    by (simp add: createConnection_def created_world_def happy_stages_def u1_record_def
        stage_a_body_def happy_env_def u1_callback_def connection_id_def empty_world_def emit_def)
qed

lemma stage_a_rejected:
  "exchangeCode stage_a_fails_env (params_state u1_callback) (js_optional (params_code u1_callback)) w =
     (Inl (DiscordApiError GENERAL_ERROR),
      emit (ConsoleError ''Error exchanging code for xbox connection: ''
              (ApiError ''Failed to exchange code'' 0 400))
        (emit (Fetch (exchangeCode_request stage_a_fails_env (JStr ''abc123''))) w))"
  by (simp add: exchangeCode_def validateState_def stage_a_fails_env_def scenario_fetch_routes
      rejected_def and_then_def ok_def u1_callback_def js_optional_def connection_id_def)

lemma stage_b_rejected:
  "getUserToken stage_b_fails_env (JStr ''AT1'') w =
     (Inl (DiscordApiError INVALID_OAUTH_TOKEN),
      emit (ConsoleError ''Error getting user token for xbox connection: ''
              (ApiError ''Failed to get user token'' 0 400))
        (emit (Fetch (getUserToken_request (JStr ''AT1''))) w))"
  by (simp add: getUserToken_def stage_b_fails_env_def scenario_fetch_routes
      rejected_def and_then_def ok_def connection_id_def)

lemma stage_c_rejected:
  "getUser stage_c_fails_env (JStr ''ST1'') w =
     (Inl (DiscordApiError GENERAL_ERROR),
      emit (ConsoleError ''Error fetching user for xbox connection: ''
              (ApiError ''Failed to fetch user'' 0 400))
        (emit (Fetch (getUser_request (JStr ''ST1''))) w))"
  by (simp add: getUser_def stage_c_fails_env_def scenario_fetch_routes
      rejected_def and_then_def ok_def connection_id_def)

section \<open>The claims\<close>

text \<open>
  C1. For every invocation of \<^verbatim>\<open>handleCallback\<close>: a record is written only if the three
  stages succeeded, in order, and the existence check found no record; when a stage fails,
  \<^verbatim>\<open>handleCallback\<close> fails with that stage's error and the store is as it was; and when
  the three stages succeed and no record exists yet, exactly one record is written.
\<close>

theorem handleCallback_writes_only_after_all_stages:
  assumes run: "handleCallback env params w = (r, w')"
  shows
    "(connections w' \<noteq> connections w \<or> saves (new_events w w') \<noteq> [] \<longrightarrow>
        (\<exists>userId tokenData w1 access_token userToken w2 userInfo w3 xid.
           getUserId env (params_state params) = Inr userId \<and>
           exchangeCode env (params_state params) (js_optional (params_code params)) w =
             (Inr tokenData, w1) \<and>
           get_prop tokenData ''access_token'' = Inr access_token \<and>
           getUserToken env access_token w1 = (Inr userToken, w2) \<and>
           getUser env userToken w2 = (Inr userInfo, w3) \<and>
           first_claim userInfo ''xid'' = Inr xid \<and>
           \<not> hasConnection connection_id (connections w) userId xid)) \<and>
     (\<forall>userId e w1.
        getUserId env (params_state params) = Inr userId \<and>
        exchangeCode env (params_state params) (js_optional (params_code params)) w = (Inl e, w1) \<longrightarrow>
        r = Inl e \<and> connections w' = connections w \<and> saves (new_events w w') = []) \<and>
     (\<forall>userId tokenData w1 access_token e w2.
        getUserId env (params_state params) = Inr userId \<and>
        exchangeCode env (params_state params) (js_optional (params_code params)) w =
          (Inr tokenData, w1) \<and>
        get_prop tokenData ''access_token'' = Inr access_token \<and>
        getUserToken env access_token w1 = (Inl e, w2) \<longrightarrow>
        r = Inl e \<and> connections w' = connections w \<and> saves (new_events w w') = []) \<and>
     (\<forall>userId tokenData w1 access_token userToken w2 e w3.
        getUserId env (params_state params) = Inr userId \<and>
        exchangeCode env (params_state params) (js_optional (params_code params)) w =
          (Inr tokenData, w1) \<and>
        get_prop tokenData ''access_token'' = Inr access_token \<and>
        getUserToken env access_token w1 = (Inr userToken, w2) \<and>
        getUser env userToken w2 = (Inl e, w3) \<longrightarrow>
        r = Inl e \<and> connections w' = connections w \<and> saves (new_events w w') = []) \<and>
     (\<forall>userId tokenData w1 access_token userToken w2 userInfo w3 xid.
        getUserId env (params_state params) = Inr userId \<and>
        exchangeCode env (params_state params) (js_optional (params_code params)) w =
          (Inr tokenData, w1) \<and>
        get_prop tokenData ''access_token'' = Inr access_token \<and>
        getUserToken env access_token w1 = (Inr userToken, w2) \<and>
        getUser env userToken w2 = (Inr userInfo, w3) \<and>
        first_claim userInfo ''xid'' = Inr xid \<and>
        \<not> hasConnection connection_id (connections w) userId xid \<longrightarrow>
        (\<exists>rec. r = Inr (Some rec) \<and> connections w' = connections w @ [rec] \<and>
               saves (new_events w w') = [rec]))"
    (is "?only \<and> ?a \<and> ?b \<and> ?c \<and> ?once")
proof -
  have quiet: "connections v = connections w \<and> saves (new_events w v) = []" if "no_write w v" for v
    using that by (simp add: no_write_store no_write_saves)
  have ?only
    using run
  proof (cases rule: handleCallback_cases)
    case (no_user e)
    then show ?thesis by simp
  next
    case (stage_a userId e)
    from quiet [OF exchangeCode_no_write [OF stage_a(2)]] show ?thesis
      by simp
  next
    case (stage_b userId tokenData w1 access_token e)
    from exchangeCode_no_write [OF stage_b(2)] getUserToken_no_write [OF stage_b(4)]
    have "no_write w w'" by (rule no_write_trans)
    from quiet [OF this] show ?thesis by simp
  next
    case (stage_c userId tokenData w1 access_token userToken w2 e)
    from exchangeCode_no_write [OF stage_c(2)] getUserToken_no_write [OF stage_c(4)]
      getUser_no_write [OF stage_c(5)]
    have "no_write w w'" by (blast intro: no_write_trans)
    from quiet [OF this] show ?thesis by simp
  next
    case (no_claim userId tokenData w1 access_token userToken w2 userInfo e)
    from exchangeCode_no_write [OF no_claim(2)] getUserToken_no_write [OF no_claim(4)]
      getUser_no_write [OF no_claim(5)]
    have "no_write w w'" by (blast intro: no_write_trans)
    from quiet [OF this] show ?thesis by simp
  next
    case (linked userId tokenData w1 access_token userToken w2 userInfo xid)
    from exchangeCode_no_write [OF linked(2)] getUserToken_no_write [OF linked(4)]
      getUser_no_write [OF linked(5)]
    have "no_write w w'" by (blast intro: no_write_trans)
    from quiet [OF this] show ?thesis by simp
  next
    case (created userId tokenData w1 access_token userToken w2 userInfo w3 xid gtg)
    from exchangeCode_no_write [OF created(2)] getUserToken_no_write [OF created(4)]
      getUser_no_write [OF created(5)]
    have "no_write w w3" by (blast intro: no_write_trans)
    with created(8) have "\<not> hasConnection connection_id (connections w) userId xid"
      by (simp add: no_write_store)
    with created(1-6) show ?thesis by blast
  qed
  moreover have ?a
  proof (intro allI impI, elim conjE)
    fix userId e w1
    assume h: "getUserId env (params_state params) = Inr userId"
      "exchangeCode env (params_state params) (js_optional (params_code params)) w = (Inl e, w1)"
    from handleCallback_stage_a_fails [OF h] run have "r = Inl e" "w' = w1" by simp_all
    with quiet [OF exchangeCode_no_write [OF h(2)]]
    show "r = Inl e \<and> connections w' = connections w \<and> saves (new_events w w') = []"
      by simp
  qed
  moreover have ?b
  proof (intro allI impI, elim conjE)
    fix userId tokenData w1 access_token e w2
    assume h: "getUserId env (params_state params) = Inr userId"
      "exchangeCode env (params_state params) (js_optional (params_code params)) w =
         (Inr tokenData, w1)"
      "get_prop tokenData ''access_token'' = Inr access_token"
      "getUserToken env access_token w1 = (Inl e, w2)"
    from handleCallback_stage_b_fails [OF h] run have "r = Inl e" "w' = w2" by simp_all
    moreover from exchangeCode_no_write [OF h(2)] getUserToken_no_write [OF h(4)]
    have "no_write w w2" by (rule no_write_trans)
    from quiet [OF this] have "connections w2 = connections w" "saves (new_events w w2) = []"
      by simp_all
    ultimately show "r = Inl e \<and> connections w' = connections w \<and> saves (new_events w w') = []"
      by simp
  qed
  moreover have ?c
  proof (intro allI impI, elim conjE)
    fix userId tokenData w1 access_token userToken w2 e w3
    assume h: "getUserId env (params_state params) = Inr userId"
      "exchangeCode env (params_state params) (js_optional (params_code params)) w =
         (Inr tokenData, w1)"
      "get_prop tokenData ''access_token'' = Inr access_token"
      "getUserToken env access_token w1 = (Inr userToken, w2)"
      "getUser env userToken w2 = (Inl e, w3)"
    from handleCallback_stage_c_fails [OF h] run have "r = Inl e" "w' = w3" by simp_all
    moreover from exchangeCode_no_write [OF h(2)] getUserToken_no_write [OF h(4)]
      getUser_no_write [OF h(5)]
    have "no_write w w3" by (blast intro: no_write_trans)
    from quiet [OF this] have "connections w3 = connections w" "saves (new_events w w3) = []"
      by simp_all
    ultimately show "r = Inl e \<and> connections w' = connections w \<and> saves (new_events w w') = []"
      by simp
  qed
  moreover have ?once
  proof (intro allI impI, elim conjE)
    fix userId tokenData w1 access_token userToken w2 userInfo w3 xid
    assume h: "getUserId env (params_state params) = Inr userId"
      "exchangeCode env (params_state params) (js_optional (params_code params)) w =
         (Inr tokenData, w1)"
      "get_prop tokenData ''access_token'' = Inr access_token"
      "getUserToken env access_token w1 = (Inr userToken, w2)"
      "getUser env userToken w2 = (Inr userInfo, w3)"
      "first_claim userInfo ''xid'' = Inr xid"
      and fresh: "\<not> hasConnection connection_id (connections w) userId xid"
    from exchangeCode_no_write [OF h(2)] getUserToken_no_write [OF h(4)]
      getUser_no_write [OF h(5)]
    have q: "no_write w w3" by (blast intro: no_write_trans)
    from first_claim_total [OF h(6)] obtain gtg
      where gtg: "first_claim userInfo ''gtg'' = Inr gtg" by blast
    from fresh q have "\<not> hasConnection connection_id (connections w3) userId xid"
      by (simp add: no_write_store)
    from handleCallback_creates [OF h gtg this] run
    obtain data where "(r, w') = createConnection data w3" by simp
    from createConnection_writes_once [OF q this]
    show "\<exists>rec. r = Inr (Some rec) \<and> connections w' = connections w @ [rec] \<and>
               saves (new_events w w') = [rec]"
      by blast
  qed
  ultimately show ?thesis by blast
qed

theorem handleCallback_writes_only_after_all_stages_witness:
  "handleCallback happy_env u1_callback empty_world = (Inr (Some u1_record), created_world) \<and>
   connections created_world = connections empty_world @ [u1_record] \<and>
   saves (new_events empty_world created_world) = [u1_record] \<and>
   (\<exists>w'. handleCallback stage_a_fails_env u1_callback empty_world =
            (Inl (DiscordApiError GENERAL_ERROR), w') \<and>
         connections w' = connections empty_world \<and> saves (new_events empty_world w') = [])"
proof -
  have fresh: "\<not> hasConnection connection_id (connections empty_world) ''u1'' (JStr ''X1'')"
    by (simp add: hasConnection_def empty_world_def)
  note once' = handleCallback_writes_only_after_all_stages [OF happy_callback,
      THEN conjunct2, THEN conjunct2, THEN conjunct2, THEN conjunct2, rule_format]
  have once: "\<exists>rec. (Inr (Some u1_record) :: js_error + ConnectedAccount option) = Inr (Some rec) \<and>
               connections created_world = connections empty_world @ [rec] \<and>
               saves (new_events empty_world created_world) = [rec]"
    by (rule once' [of "''u1''" stage_a_body _ "JStr ''AT1''" "JStr ''ST1''" _ stage_c_body _
          "JStr ''X1''"]) (simp add: happy_run fresh)
  obtain r' w' where run': "handleCallback stage_a_fails_env u1_callback empty_world = (r', w')"
    by (cases "handleCallback stage_a_fails_env u1_callback empty_world")
  have uid: "getUserId stage_a_fails_env (params_state u1_callback) = Inr ''u1''"
    by (simp add: stage_a_fails_env_def u1_callback_def)
  note a' = handleCallback_writes_only_after_all_stages [OF run',
      THEN conjunct2, THEN conjunct1, rule_format]
  have "r' = Inl (DiscordApiError GENERAL_ERROR) \<and> connections w' = connections empty_world \<and>
        saves (new_events empty_world w') = []"
    by (rule a' [of "''u1''"]) (simp add: uid stage_a_rejected)
  with run' once happy_callback show ?thesis by auto
qed

text \<open>
  C2. For every callback whose three-stage chain succeeds and for which a connection record
  of this provider is already stored for the recovered host user and the first claims
  entry's \<open>xid\<close>, \<^verbatim>\<open>handleCallback\<close> returns null and performs no persistence write.
\<close>

theorem handleCallback_already_linked:
  assumes "getUserId env (params_state params) = Inr userId"
    and "exchangeCode env (params_state params) (js_optional (params_code params)) w = (Inr tokenData, w1)"
    and "get_prop tokenData ''access_token'' = Inr access_token"
    and "getUserToken env access_token w1 = (Inr userToken, w2)"
    and "getUser env userToken w2 = (Inr userInfo, w3)"
    and "first_claim userInfo ''xid'' = Inr xid"
    and "\<exists>r \<in> set (connections w). user_id r = userId \<and> external_id r = xid \<and> type r = connection_id"
  shows "handleCallback env params w = (Inr None, w3) \<and>
         connections w3 = connections w \<and> saves (new_events w w3) = []"
proof -
  from assms(2,4,5) obtain es where es: "events w3 = events w @ es" "connections w3 = connections w"
    "saves es = []"
    by (rule stages_effect)
  from assms(7) es(2) have "hasConnection connection_id (connections w3) userId xid"
    by (auto simp: hasConnection_def list_ex_iff)
  with assms have "handleCallback env params w = (Inr None, w3)"
    by (intro handleCallback_linked)
  with es show ?thesis by simp
qed

theorem handleCallback_already_linked_witness:
  "(\<exists>r \<in> set (connections linked_world).
      user_id r = ''u1'' \<and> external_id r = JStr ''X1'' \<and> type r = connection_id) \<and>
   handleCallback happy_env u1_callback linked_world = (Inr None, happy_stages linked_world) \<and>
   connections (happy_stages linked_world) = [u1_record] \<and>
   saves (new_events linked_world (happy_stages linked_world)) = []"
proof -
  have h: "\<exists>r \<in> set (connections linked_world).
      user_id r = ''u1'' \<and> external_id r = JStr ''X1'' \<and> type r = connection_id"
    by (simp add: linked_world_def u1_record_def connection_id_def)
  show ?thesis
    using h handleCallback_already_linked [OF happy_run(1,2,3,4,5,6) h]
    by (simp add: happy_stages_def linked_world_def)
qed

text \<open>
  C3. For every callback whose three-stage chain succeeds and for which no record of this
  provider is stored for the recovered host user and the first claims entry's \<open>xid\<close>,
  \<^verbatim>\<open>handleCallback\<close> creates exactly one record and returns it: its \<open>external_id\<close> is
  that \<open>xid\<close>, its \<open>name\<close> the first claims entry's \<open>gtg\<close>, its \<open>token_data\<close> the
  Stage A token response with \<open>fetched_at\<close> set to the current time and every other
  property as it was, and its \<open>user_id\<close>, \<open>friend_sync\<close> and \<open>type\<close> are the recovered
  host user, the callback's \<open>friend_sync\<close> and the provider tag.
\<close>

theorem handleCallback_creates_record:
  assumes "getUserId env (params_state params) = Inr userId"
    and "exchangeCode env (params_state params) (js_optional (params_code params)) w = (Inr tokenData, w1)"
    and "get_prop tokenData ''access_token'' = Inr access_token"
    and "getUserToken env access_token w1 = (Inr userToken, w2)"
    and "getUser env userToken w2 = (Inr userInfo, w3)"
    and "first_claim userInfo ''xid'' = Inr xid"
    and "\<not> hasConnection connection_id (connections w) userId xid"
  shows "\<exists>rec w'.
           handleCallback env params w = (Inr (Some rec), w') \<and>
           connections w' = connections w @ [rec] \<and>
           saves (new_events w w') = [rec] \<and>
           external_id rec = xid \<and>
           first_claim userInfo ''gtg'' = Inr (name rec) \<and>
           token_data rec = JObj (set_prop ''fetched_at'' (JNum (now env)) (own_props tokenData)) \<and>
           get_prop (token_data rec) ''fetched_at'' = Inr (JNum (now env)) \<and>
           (\<forall>k. k \<noteq> ''fetched_at'' \<longrightarrow>
                get_prop (token_data rec) k = get_prop (JObj (own_props tokenData)) k) \<and>
           user_id rec = userId \<and>
           friend_sync rec = params_friend_sync params \<and>
           type rec = connection_id"
proof -
  from first_claim_total [OF assms(6)] obtain gtg
    where gtg: "first_claim userInfo ''gtg'' = Inr gtg" by blast
  define rec where "rec =
    \<lparr>token_data = JObj (set_prop ''fetched_at'' (JNum (now env)) (own_props tokenData)),
     user_id = userId, external_id = xid, friend_sync = params_friend_sync params,
     name = gtg, type = connection_id\<rparr>"
  define w' where "w' = emit (Save rec) (w3\<lparr>connections := connections w3 @ [rec]\<rparr>)"
  from assms(2,4,5) obtain es where es: "events w3 = events w @ es" "connections w3 = connections w"
    "saves es = []"
    by (rule stages_effect)
  from assms(7) es(2) have fresh: "\<not> hasConnection connection_id (connections w3) userId xid"
    by simp
  have run: "handleCallback env params w = (Inr (Some rec), w')"
    using handleCallback_creates [OF assms(1-6) gtg fresh]
    by (simp add: createConnection_def rec_def w'_def)
  have ev: "events w' = events w @ (es @ [Save rec])"
    using es by (simp add: w'_def)
  have store: "connections w' = connections w @ [rec]"
    using es by (simp add: w'_def)
  have saved: "saves (new_events w w') = [rec]"
    using es(3) by (simp add: new_events_append [OF ev])
  have fields: "external_id rec = xid" "name rec = gtg"
    "token_data rec = JObj (set_prop ''fetched_at'' (JNum (now env)) (own_props tokenData))"
    "user_id rec = userId" "friend_sync rec = params_friend_sync params" "type rec = connection_id"
    by (simp_all add: rec_def)
  have stamp: "get_prop (token_data rec) ''fetched_at'' = Inr (JNum (now env))"
    unfolding fields by (rule get_prop_set_prop_same)
  have rest: "\<forall>k. k \<noteq> ''fetched_at'' \<longrightarrow>
      get_prop (token_data rec) k = get_prop (JObj (own_props tokenData)) k"
    unfolding fields using get_prop_set_prop_other by blast
  show ?thesis
    using run store saved fields(1,3,4,5,6) stamp rest gtg [folded fields(2)] by blast
qed

theorem handleCallback_creates_record_witness:
  "\<not> hasConnection connection_id (connections empty_world) ''u1'' (JStr ''X1'') \<and>
   (\<exists>w'. handleCallback happy_env u1_callback empty_world = (Inr (Some u1_record), w') \<and>
         connections w' = [u1_record] \<and> saves (new_events empty_world w') = [u1_record])"
proof -
  have h: "\<not> hasConnection connection_id (connections empty_world) ''u1'' (JStr ''X1'')"
    by (simp add: hasConnection_def empty_world_def)
  from handleCallback_creates_record [OF happy_run(1,2,3,4,5,6) h]
  obtain rec w' where r:
    "handleCallback happy_env u1_callback empty_world = (Inr (Some rec), w')"
    "connections w' = connections empty_world @ [rec]"
    "saves (new_events empty_world w') = [rec]"
    "external_id rec = JStr ''X1''"
    "first_claim stage_c_body ''gtg'' = Inr (name rec)"
    "token_data rec =
       JObj (set_prop ''fetched_at'' (JNum (now happy_env)) (own_props stage_a_body))"
    "user_id rec = ''u1''"
    "friend_sync rec = params_friend_sync u1_callback"
    "type rec = connection_id"
    by blast
  have "rec = u1_record"
    using r(4-9) happy_run(7)
    by (cases rec)
      (simp add: u1_record_def stage_a_body_def happy_env_def u1_callback_def connection_id_def)
  with r(1-3) h show ?thesis
    by (auto simp: empty_world_def)
qed

text \<open>
  C4 (as amended). The error of a failed stage: Stage A fails with \<^verbatim>\<open>GENERAL_ERROR\<close>
  once the state has validated (and with \<^verbatim>\<open>INVALID_OAUTH_STATE\<close> when it has not),
  Stage B with \<^verbatim>\<open>INVALID_OAUTH_TOKEN\<close>, Stage C with \<^verbatim>\<open>GENERAL_ERROR\<close>. The error
  of Stage B differs from the other two; those of Stage A, after a valid state, and of
  Stage C are the same.
\<close>

theorem stage_error_kinds:
  assumes "exchangeCode envA state code wA = (Inl eA, wA')"
    and "getUserToken envB tokenB wB = (Inl eB, wB')"
    and "getUser envC tokenC wC = (Inl eC, wC')"
  shows "eA = (if state_valid envA state then DiscordApiError GENERAL_ERROR
               else DiscordApiError INVALID_OAUTH_STATE) \<and>
         eB = DiscordApiError INVALID_OAUTH_TOKEN \<and>
         eC = DiscordApiError GENERAL_ERROR \<and>
         eB \<noteq> eA \<and> eB \<noteq> eC \<and>
         (state_valid envA state \<longrightarrow> eA = eC)"
  using exchangeCode_error [OF assms(1)] getUserToken_error [OF assms(2)]
    getUser_error [OF assms(3)]
  by simp

theorem stage_error_kinds_witness:
  "fst (exchangeCode stage_a_fails_env ''state-u1'' (JStr ''abc123'') empty_world) =
     Inl (DiscordApiError GENERAL_ERROR) \<and>
   fst (getUserToken stage_b_fails_env (JStr ''AT1'') empty_world) =
     Inl (DiscordApiError INVALID_OAUTH_TOKEN) \<and>
   fst (getUser stage_c_fails_env (JStr ''ST1'') empty_world) =
     Inl (DiscordApiError GENERAL_ERROR) \<and>
   state_valid stage_a_fails_env ''state-u1''"
proof -
  have v: "state_valid stage_a_fails_env ''state-u1''"
    by (simp add: stage_a_fails_env_def)
  obtain eA wA' where a:
    "exchangeCode stage_a_fails_env ''state-u1'' (JStr ''abc123'') empty_world = (Inl eA, wA')"
    using stage_a_rejected [of empty_world] by (simp add: u1_callback_def js_optional_def)
  from stage_error_kinds [OF a stage_b_rejected [of empty_world]
      stage_c_rejected [of empty_world]] v
  have "eA = DiscordApiError GENERAL_ERROR" by simp
  with a v show ?thesis
    by (simp add: stage_b_rejected stage_c_rejected)
qed

text \<open>
  C4 (as stated) fails: a callback whose Stage A is refused and a callback whose Stage C is
  refused fail with the same error, so the caller cannot tell the two stages apart.
\<close>

theorem stage_errors_not_distinct:
  "fst (handleCallback stage_a_fails_env u1_callback empty_world) =
     Inl (DiscordApiError GENERAL_ERROR) \<and>
   fetched_urls (events (snd (handleCallback stage_a_fails_env u1_callback empty_world))) =
     [tokenUrl] \<and>
   fst (handleCallback stage_c_fails_env u1_callback empty_world) =
     Inl (DiscordApiError GENERAL_ERROR) \<and>
   fetched_urls (events (snd (handleCallback stage_c_fails_env u1_callback empty_world))) =
     [tokenUrl, userAuthUrl, userInfoUrl]"
proof -
  have ua: "getUserId stage_a_fails_env (params_state u1_callback) = Inr ''u1''"
    unfolding stage_a_fails_env_def by (rule scenario_run)
  have u: "getUserId stage_c_fails_env (params_state u1_callback) = Inr ''u1''"
    and a: "exchangeCode stage_c_fails_env (params_state u1_callback)
        (js_optional (params_code u1_callback)) w =
      (Inr stage_a_body, emit (Fetch (exchangeCode_request stage_c_fails_env (JStr ''abc123''))) w)"
    and b: "getUserToken stage_c_fails_env (JStr ''AT1'') w =
      (Inr (JStr ''ST1''), emit (Fetch (getUserToken_request (JStr ''AT1''))) w)"
    for w
    unfolding stage_c_fails_env_def by (rule scenario_run)+
  show ?thesis
    using handleCallback_stage_a_fails [OF ua stage_a_rejected, of empty_world]
      handleCallback_stage_c_fails [OF u a happy_run(3) b stage_c_rejected, of empty_world]
    by (simp add: empty_world_def exchangeCode_request_def getUserToken_request_def
        getUser_request_def getTokenUrl_def url_toString_def new_URL_def)
qed

text \<open>
  C5. For every state token and code, \<^verbatim>\<open>exchangeCode\<close> validates the state before it
  issues its HTTP request: a state that does not validate is rejected with the invalid-state
  error, and the invocation sends no request (it leaves the world as it found it).
\<close>

theorem exchangeCode_rejects_state_before_request:
  assumes "\<not> state_valid env state"
  shows "exchangeCode env state code w = (Inl (DiscordApiError INVALID_OAUTH_STATE), w) \<and>
         fetched_urls (new_events w (snd (exchangeCode env state code w))) = []"
  using assms by (simp add: exchangeCode_invalid)

theorem exchangeCode_rejects_state_before_request_witness:
  "\<not> state_valid happy_env ''forged'' \<and>
   exchangeCode happy_env ''forged'' (JStr ''abc123'') empty_world =
     (Inl (DiscordApiError INVALID_OAUTH_STATE), empty_world) \<and>
   fetched_urls (new_events empty_world
     (snd (exchangeCode happy_env ''forged'' (JStr ''abc123'') empty_world))) = []"
proof -
  have h: "\<not> state_valid happy_env ''forged''" by (simp add: happy_env_def)
  show ?thesis
    using h exchangeCode_rejects_state_before_request [OF h, of "JStr ''abc123''" empty_world]
    by simp
qed

text \<open>
  C6 (as amended). For every callback in which Stage A has succeeded and Stage B's HTTP
  call returns a status outside 200 to 299, a body that is not JSON, or the JSON
  \<^verbatim>\<open>null\<close>, \<^verbatim>\<open>handleCallback\<close> fails with the invalid-credential error
  \<^verbatim>\<open>INVALID_OAUTH_TOKEN\<close>, and the Stage C request is never sent: the requests of the
  call are those of Stage A and Stage B.
\<close>

theorem handleCallback_stage_b_rejected:
  assumes "getUserId env (params_state params) = Inr userId"
    and "exchangeCode env (params_state params) (js_optional (params_code params)) w = (Inr tokenData, w1)"
    and "get_prop tokenData ''access_token'' = Inr access_token"
    and "fetch env (getUserToken_request access_token) = Inr res"
    and "\<not> ok res \<or> json res = None \<or> json res = Some JNull"
  shows "\<exists>w2. handleCallback env params w = (Inl (DiscordApiError INVALID_OAUTH_TOKEN), w2) \<and>
              fetched_urls (new_events w w2) = [tokenUrl, userAuthUrl] \<and>
              userInfoUrl \<notin> set (fetched_urls (new_events w w2))"
proof -
  from getUserToken_rejected [OF assms(4,5)] obtain w2
    where b: "getUserToken env access_token w1 = (Inl (DiscordApiError INVALID_OAUTH_TOKEN), w2)"
    by blast
  from assms(2) obtain es1 where es1: "events w1 = events w @ es1"
    "fetched_urls es1 = (if state_valid env (params_state params) then [tokenUrl] else [])"
    by (rule exchangeCode_effect)
  from exchangeCode_value [OF assms(2)] have valid: "state_valid env (params_state params)"
    by simp
  from b obtain es2 where es2: "events w2 = events w1 @ es2" "fetched_urls es2 = [userAuthUrl]"
    by (rule getUserToken_urls)
  have "events w2 = events w @ (es1 @ es2)"
    using es1 es2 by simp
  from new_events_append [OF this]
  have urls: "fetched_urls (new_events w w2) = [tokenUrl, userAuthUrl]"
    using es1 es2 valid by simp
  have "handleCallback env params w = (Inl (DiscordApiError INVALID_OAUTH_TOKEN), w2)"
    using assms(1-3) b by (rule handleCallback_stage_b_fails)
  with urls show ?thesis
    by (auto simp: stage_urls_differ)
qed

theorem handleCallback_stage_b_rejected_witness:
  "fetch stage_b_fails_env (getUserToken_request (JStr ''AT1'')) =
     Inr \<lparr>status = 401, json = None\<rparr> \<and>
   \<not> ok \<lparr>status = 401, json = None\<rparr> \<and>
   (\<exists>w2. handleCallback stage_b_fails_env u1_callback empty_world =
           (Inl (DiscordApiError INVALID_OAUTH_TOKEN), w2) \<and>
         fetched_urls (new_events empty_world w2) = [tokenUrl, userAuthUrl] \<and>
         userInfoUrl \<notin> set (fetched_urls (new_events empty_world w2)))"
proof -
  have u: "getUserId stage_b_fails_env (params_state u1_callback) = Inr ''u1''"
    and a: "exchangeCode stage_b_fails_env (params_state u1_callback)
        (js_optional (params_code u1_callback)) w =
      (Inr stage_a_body, emit (Fetch (exchangeCode_request stage_b_fails_env (JStr ''abc123''))) w)"
    for w
    unfolding stage_b_fails_env_def by (rule scenario_run)+
  have f: "fetch stage_b_fails_env (getUserToken_request (JStr ''AT1'')) =
      Inr \<lparr>status = 401, json = None\<rparr>"
    by (simp add: stage_b_fails_env_def scenario_fetch_routes rejected_def)
  have n: "\<not> ok \<lparr>status = 401, json = None\<rparr> \<or> json \<lparr>status = 401, json = None\<rparr> = None \<or>
      json \<lparr>status = 401, json = None\<rparr> = Some JNull"
    by simp
  from handleCallback_stage_b_rejected [OF u a happy_run(3) f n, of empty_world] f
  show ?thesis by (simp add: ok_def)
qed

text \<open>
  C6 (as stated) fails: when Stage B answers with status 200 and the JSON object
  \<^verbatim>\<open>{}\<close>, which has no \<open>Token\<close>, \<^verbatim>\<open>getUserToken\<close> returns undefined without
  failing, and \<^verbatim>\<open>handleCallback\<close> goes on to Stage C and creates the record.
\<close>

theorem stage_b_body_without_token_reaches_stage_c:
  "fetch no_token_env (getUserToken_request (JStr ''AT1'')) =
     Inr \<lparr>status = 200, json = Some (JObj [])\<rparr> \<and>
   fst (getUserToken no_token_env (JStr ''AT1'') empty_world) = Inr JUndefined \<and>
   fst (handleCallback no_token_env u1_callback empty_world) = Inr (Some u1_record) \<and>
   fetched_urls (events (snd (handleCallback no_token_env u1_callback empty_world))) =
     [tokenUrl, userAuthUrl, userInfoUrl]"
proof -
  have u: "getUserId no_token_env (params_state u1_callback) = Inr ''u1''"
    and a: "exchangeCode no_token_env (params_state u1_callback)
        (js_optional (params_code u1_callback)) w =
      (Inr stage_a_body, emit (Fetch (exchangeCode_request no_token_env (JStr ''abc123''))) w)"
    for w
    unfolding no_token_env_def by (rule scenario_run)+
  have f: "fetch no_token_env (getUserToken_request (JStr ''AT1'')) =
      Inr \<lparr>status = 200, json = Some (JObj [])\<rparr>"
    by (simp add: no_token_env_def scenario_fetch_routes ok_response_def)
  have b: "getUserToken no_token_env (JStr ''AT1'') w =
      (Inr JUndefined, emit (Fetch (getUserToken_request (JStr ''AT1''))) w)" for w
    by (simp add: no_token_env_def scenario_stage_b)
  have c: "getUser no_token_env JUndefined w =
      (Inr stage_c_body, emit (Fetch (getUser_request JUndefined)) w)" for w
    by (simp add: no_token_env_def scenario_stage_c stage_c_body_def)
  have fresh: "\<not> hasConnection connection_id (connections
      (emit (Fetch (getUser_request JUndefined))
        (emit (Fetch (getUserToken_request (JStr ''AT1'')))
          (emit (Fetch (exchangeCode_request no_token_env (JStr ''abc123''))) empty_world))))
      ''u1'' (JStr ''X1'')"
    by (simp add: hasConnection_def empty_world_def)
  have n: "now no_token_env = 1700000000000"
    by (simp add: no_token_env_def)
  from handleCallback_creates [OF u a happy_run(3) b c happy_run(6,7) fresh] f b [of empty_world]
  show ?thesis
    by (simp add: createConnection_def u1_record_def stage_a_body_def n u1_callback_def
        connection_id_def empty_world_def
        exchangeCode_request_def getUserToken_request_def
        getUser_request_def getTokenUrl_def url_toString_def new_URL_def)
qed

text \<open>
  C7 (as amended). Neither \<^verbatim>\<open>getAuthorizationUrl\<close> nor \<^verbatim>\<open>exchangeCode\<close> checks the
  settings. When \<open>clientId\<close> or \<open>clientSecret\<close> is absent (null or undefined),
  \<^verbatim>\<open>getAuthorizationUrl\<close> still returns the authorization URL, with the text of the absent
  value (\<^verbatim>\<open>null\<close>, \<^verbatim>\<open>undefined\<close>) as \<open>client_id\<close>, and \<^verbatim>\<open>exchangeCode\<close>, for a
  valid state, still sends the token request, with that text in the Basic credentials and
  in \<open>client_id\<close>.
\<close>

theorem absent_credentials_not_checked:
  assumes "clientId env \<in> {JNull, JUndefined} \<or> clientSecret env \<in> {JNull, JUndefined}"
    and "state_valid env state"
  shows "(\<exists>r w' log. exchangeCode env state code w = (r, w') \<and>
            new_events w w' = Fetch (exchangeCode_request env code) # log) \<and>
         map_of (req_headers (exchangeCode_request env code)) ''Authorization'' =
           Some (''Basic '' @
             base64 (to_string (clientId env) @ '':'' @ to_string (clientSecret env))) \<and>
         param_values ''client_id'' (form_fields (req_body (exchangeCode_request env code))) =
           [to_string (clientId env)] \<and>
         param_values ''client_id'' (searchParams (getAuthorizationUrl_url env userId)) =
           [to_string (clientId env)] \<and>
         getAuthorizationUrl env userId =
           authorizeUrl @ ''?'' @
             urlencoded_serialize (searchParams (getAuthorizationUrl_url env userId)) \<and>
         to_string JNull = ''null'' \<and> to_string JUndefined = ''undefined''"
proof -
  obtain r w' where run: "exchangeCode env state code w = (r, w')"
    by (cases "exchangeCode env state code w")
  from exchangeCode_first_request [OF run assms(2)] obtain log
    where "events w' = events w @ Fetch (exchangeCode_request env code) # log"
    by blast
  from new_events_append [OF this] run
  have "\<exists>r w' log. exchangeCode env state code w = (r, w') \<and>
      new_events w w' = Fetch (exchangeCode_request env code) # log"
    by blast
  then show ?thesis
    by (simp add: param_values_def getAuthorizationUrl_params getAuthorizationUrl_string
        exchangeCode_request_def)
qed

theorem absent_credentials_not_checked_witness:
  "clientId no_credentials_env = JNull \<and> clientSecret no_credentials_env = JNull \<and>
   state_valid no_credentials_env ''state-u1'' \<and>
   (\<exists>r w' log. exchangeCode no_credentials_env ''state-u1'' (JStr ''abc123'') empty_world = (r, w') \<and>
      new_events empty_world w' =
        Fetch (exchangeCode_request no_credentials_env (JStr ''abc123'')) # log) \<and>
   map_of (req_headers (exchangeCode_request no_credentials_env (JStr ''abc123''))) ''Authorization'' =
     Some ''Basic bnVsbDpudWxs''"
proof -
  have c: "clientId no_credentials_env = JNull" "clientSecret no_credentials_env = JNull"
    and v: "state_valid no_credentials_env ''state-u1''"
    by (simp_all add: no_credentials_env_def happy_env_def)
  have h: "clientId no_credentials_env \<in> {JNull, JUndefined} \<or>
      clientSecret no_credentials_env \<in> {JNull, JUndefined}"
    using c by simp
  from absent_credentials_not_checked [OF h v, of "JStr ''abc123''" empty_world] c v
  show ?thesis
    by (simp add: base64_null_null)
qed

text \<open>
  C7 (as stated) fails: with both settings null, \<^verbatim>\<open>getAuthorizationUrl\<close> returns a URL
  whose \<open>client_id\<close> is \<^verbatim>\<open>null\<close>, and \<^verbatim>\<open>exchangeCode\<close> sends the token request with
  the credentials \<^verbatim>\<open>null:null\<close>.
\<close>

theorem absent_credentials_are_sent:
  "clientId no_credentials_env = JNull \<and> clientSecret no_credentials_env = JNull \<and>
   getAuthorizationUrl no_credentials_env ''u1'' =
     ''https://login.live.com/oauth20_authorize.srf?client_id=null&redirect_uri=http%3A%2F%2Flocalhost%3A3001%2Fconnections%2Fxbox%2Fcallback&response_type=code&scope=Xboxlive.signin+Xboxlive.offline_access&state=state-u1&approval_prompt=auto'' \<and>
   exchangeCode no_credentials_env ''state-u1'' (JStr ''abc123'') empty_world =
     (Inr stage_a_body,
      \<lparr>connections = [],
       events = [Fetch
         \<lparr>req_url = ''https://login.live.com/oauth20_token.srf'',
          req_method = ''POST'',
          req_headers =
            [(''Accept'', ''application/json''),
             (''Content-Type'', ''application/x-www-form-urlencoded''),
             (''Authorization'', ''Basic bnVsbDpudWxs'')],
          req_body = FormBody
            [(''grant_type'', ''authorization_code''),
             (''code'', ''abc123''),
             (''client_id'', ''null''),
             (''redirect_uri'', ''http://localhost:3001/connections/xbox/callback''),
             (''scope'', ''Xboxlive.signin Xboxlive.offline_access'')]\<rparr>]\<rparr>)"
proof -
  have c: "clientId no_credentials_env = JNull" "clientSecret no_credentials_env = JNull"
    "endpointPrivate no_credentials_env = JNull" "createState no_credentials_env ''u1'' = ''state-u1''"
    by (simp_all add: no_credentials_env_def happy_env_def)
  have url: "getAuthorizationUrl no_credentials_env ''u1'' =
     ''https://login.live.com/oauth20_authorize.srf?client_id=null&redirect_uri=http%3A%2F%2Flocalhost%3A3001%2Fconnections%2Fxbox%2Fcallback&response_type=code&scope=Xboxlive.signin+Xboxlive.offline_access&state=state-u1&approval_prompt=auto''"
    unfolding getAuthorizationUrl_string getAuthorizationUrl_params c
    by (simp add: urlencoded_serialize_def urlencode_def urlencode_char_def urlencode_keep_def
        hex_char_def js_or_def connection_id_def scopes_def authorizeUrl_def)
  have "fetch no_credentials_env = fetch happy_env"
    by (simp add: no_credentials_env_def)
  then have f: "fetch no_credentials_env (exchangeCode_request no_credentials_env (JStr ''abc123'')) =
      ok_response stage_a_body"
    by (simp add: happy_env_def scenario_fetch_routes)
  have v: "state_valid no_credentials_env ''state-u1''"
    by (simp add: no_credentials_env_def happy_env_def)
  have e: "get_prop stage_a_body ''error'' = Inr JUndefined"
    by (simp add: stage_a_body_def)
  have "exchangeCode no_credentials_env ''state-u1'' (JStr ''abc123'') empty_world =
      (Inr stage_a_body,
       emit (Fetch (exchangeCode_request no_credentials_env (JStr ''abc123''))) empty_world)"
    by (rule exchangeCode_ok [OF v f [unfolded ok_response_def] _ _ e])
      (simp_all add: ok_def)
  then show ?thesis
    using c url
    by (simp add: exchangeCode_request_def emit_def empty_world_def base64_null_null js_or_def
        connection_id_def scopes_def getTokenUrl_def tokenUrl_def)
qed

text \<open>
  C8 (as amended). \<^verbatim>\<open>handleCallback\<close> does not look at the code: for a callback whose
  code is empty or absent (and whose state is valid), the Stage A request is sent all the
  same, with the empty code (an absent one as the text \<^verbatim>\<open>undefined\<close>); and if Stage A
  fails, \<^verbatim>\<open>handleCallback\<close> fails with Stage A's error having sent that request only, so
  before any Stage B or Stage C call.
\<close>

theorem handleCallback_empty_code:
  assumes "params_code params = Some [] \<or> params_code params = None"
    and "getUserId env (params_state params) = Inr userId"
    and "state_valid env (params_state params)"
  shows "\<exists>r w' log.
           handleCallback env params w = (r, w') \<and>
           new_events w w' =
             Fetch (exchangeCode_request env (js_optional (params_code params))) # log \<and>
           param_values ''code''
               (form_fields (req_body (exchangeCode_request env (js_optional (params_code params))))) =
             [if params_code params = None then ''undefined'' else []] \<and>
           (\<forall>e w1. exchangeCode env (params_state params) (js_optional (params_code params)) w =
                      (Inl e, w1) \<longrightarrow>
                    r = Inl e \<and> w' = w1 \<and> fetched_urls (new_events w w') = [tokenUrl])"
proof -
  obtain r w' where run: "handleCallback env params w = (r, w')"
    by (cases "handleCallback env params w")
  from handleCallback_first_request [OF run assms(2,3)] obtain log
    where log: "events w' =
      events w @ Fetch (exchangeCode_request env (js_optional (params_code params))) # log"
    by blast
  have sent: "new_events w w' =
      Fetch (exchangeCode_request env (js_optional (params_code params))) # log"
    using log by (rule new_events_append)
  have field: "param_values ''code''
      (form_fields (req_body (exchangeCode_request env (js_optional (params_code params))))) =
      [if params_code params = None then ''undefined'' else []]"
    using assms(1) by (auto simp: param_values_def exchangeCode_request_def js_optional_def)
  have fails: "r = Inl e \<and> w' = w1 \<and> fetched_urls (new_events w w') = [tokenUrl]"
    if a: "exchangeCode env (params_state params) (js_optional (params_code params)) w = (Inl e, w1)"
    for e w1
  proof -
    from handleCallback_stage_a_fails [OF assms(2) a] run have rw: "r = Inl e" "w' = w1"
      by simp_all
    from a obtain es where "events w1 = events w @ es" "fetched_urls es = [tokenUrl]"
      by (rule exchangeCode_effect) (use assms(3) in simp)
    with rw show ?thesis by simp
  qed
  from run sent field fails show ?thesis by blast
qed

theorem handleCallback_empty_code_witness:
  "params_code empty_code_callback = Some [] \<and>
   getUserId stage_a_fails_env (params_state empty_code_callback) = Inr ''u1'' \<and>
   state_valid stage_a_fails_env (params_state empty_code_callback) \<and>
   fst (handleCallback stage_a_fails_env empty_code_callback empty_world) =
     Inl (DiscordApiError GENERAL_ERROR) \<and>
   fetched_urls (new_events empty_world
     (snd (handleCallback stage_a_fails_env empty_code_callback empty_world))) = [tokenUrl]"
proof -
  have c: "params_code empty_code_callback = Some [] \<or> params_code empty_code_callback = None"
    and u: "getUserId stage_a_fails_env (params_state empty_code_callback) = Inr ''u1''"
    and v: "state_valid stage_a_fails_env (params_state empty_code_callback)"
    by (simp_all add: empty_code_callback_def stage_a_fails_env_def)
  have "\<exists>w1. exchangeCode stage_a_fails_env (params_state empty_code_callback)
      (js_optional (params_code empty_code_callback)) empty_world =
      (Inl (DiscordApiError GENERAL_ERROR), w1)"
    by (simp add: exchangeCode_def validateState_def stage_a_fails_env_def scenario_fetch_routes
        rejected_def and_then_def ok_def empty_code_callback_def)
  with handleCallback_empty_code [OF c u v, of empty_world] c u v
  show ?thesis by (auto simp: empty_code_callback_def)
qed

text \<open>
  C8 (as stated) fails: when the token endpoint answers an empty code with a token,
  \<^verbatim>\<open>handleCallback\<close> does not fail, and goes on to Stage B and Stage C.
\<close>

theorem empty_code_reaches_stage_c:
  "params_code empty_code_callback = Some [] \<and>
   fst (handleCallback happy_env empty_code_callback empty_world) = Inr (Some u1_record) \<and>
   fetched_urls (events (snd (handleCallback happy_env empty_code_callback empty_world))) =
     [tokenUrl, userAuthUrl, userInfoUrl]"
proof -
  have u: "getUserId happy_env (params_state empty_code_callback) = Inr ''u1''"
    and a: "exchangeCode happy_env (params_state empty_code_callback)
        (js_optional (params_code empty_code_callback)) w =
      (Inr stage_a_body, emit (Fetch (exchangeCode_request happy_env (JStr []))) w)" for w
    by (simp_all add: empty_code_callback_def happy_env_def js_optional_def scenario_stage_a
        stage_a_body_def)
  have "\<not> hasConnection connection_id (connections
      (emit (Fetch (getUser_request (JStr ''ST1'')))
        (emit (Fetch (getUserToken_request (JStr ''AT1'')))
          (emit (Fetch (exchangeCode_request happy_env (JStr []))) empty_world))))
      ''u1'' (JStr ''X1'')"
    by (simp add: hasConnection_def empty_world_def)
  from handleCallback_creates [OF u a happy_run(3,4,5,6,7) this]
  show ?thesis
    by (simp add: createConnection_def u1_record_def stage_a_body_def happy_env_def
        empty_code_callback_def connection_id_def empty_world_def
        exchangeCode_request_def getUserToken_request_def
        getUser_request_def getTokenUrl_def url_toString_def new_URL_def)
qed

text \<open>
  C9. For every configuration, the \<open>redirect_uri\<close> that \<^verbatim>\<open>getAuthorizationUrl\<close> puts
  in the query of the authorization URL is the \<open>redirect_uri\<close> of the form body of the
  token request of \<^verbatim>\<open>exchangeCode\<close>; each has exactly one, and for a valid state that
  request is the one \<^verbatim>\<open>exchangeCode\<close> sends.
\<close>

theorem redirect_uri_agrees:
  "\<exists>ru. param_values ''redirect_uri'' (searchParams (getAuthorizationUrl_url env userId)) = [ru] \<and>
        param_values ''redirect_uri'' (form_fields (req_body (exchangeCode_request env code))) = [ru] \<and>
        getAuthorizationUrl env userId =
          authorizeUrl @ ''?'' @
            urlencoded_serialize (searchParams (getAuthorizationUrl_url env userId)) \<and>
        (state_valid env state \<longrightarrow>
           (\<exists>log. new_events w (snd (exchangeCode env state code w)) =
                    Fetch (exchangeCode_request env code) # log))"
proof -
  have sent: "\<exists>log. new_events w (snd (exchangeCode env state code w)) =
      Fetch (exchangeCode_request env code) # log" if "state_valid env state"
  proof -
    obtain r w' where run: "exchangeCode env state code w = (r, w')"
      by (cases "exchangeCode env state code w")
    from exchangeCode_first_request [OF run that] show ?thesis
      by (auto simp: run)
  qed
  have "param_values ''redirect_uri'' (searchParams (getAuthorizationUrl_url env userId)) =
      [to_string (js_or (endpointPrivate env) (JStr ''http://localhost:3001''))
         @ ''/connections/'' @ connection_id @ ''/callback'']"
    by (simp add: param_values_def getAuthorizationUrl_params)
  moreover have "param_values ''redirect_uri''
      (form_fields (req_body (exchangeCode_request env code))) =
      [to_string (js_or (endpointPrivate env) (JStr ''http://localhost:3001''))
         @ ''/connections/'' @ connection_id @ ''/callback'']"
    by (simp add: param_values_def exchangeCode_request_def)
  ultimately show ?thesis
    using sent getAuthorizationUrl_string [of env userId] by blast
qed

theorem redirect_uri_agrees_witness:
  "param_values ''redirect_uri'' (searchParams (getAuthorizationUrl_url happy_env ''u1'')) =
     [''http://localhost:3001/connections/xbox/callback''] \<and>
   param_values ''redirect_uri''
     (form_fields (req_body (exchangeCode_request happy_env (JStr ''abc123'')))) =
     [''http://localhost:3001/connections/xbox/callback''] \<and>
   state_valid happy_env ''state-u1'' \<and>
   (\<exists>log. new_events empty_world
      (snd (exchangeCode happy_env ''state-u1'' (JStr ''abc123'') empty_world)) =
        Fetch (exchangeCode_request happy_env (JStr ''abc123'')) # log)"
proof -
  have v: "state_valid happy_env ''state-u1''"
    by (simp add: happy_env_def)
  have "param_values ''redirect_uri''
      (form_fields (req_body (exchangeCode_request happy_env (JStr ''abc123'')))) =
      [''http://localhost:3001/connections/xbox/callback'']"
    by (simp add: param_values_def exchangeCode_request_def happy_env_def js_or_def
        connection_id_def)
  with redirect_uri_agrees [of happy_env "''u1''" "JStr ''abc123''" "''state-u1''" empty_world] v
  show ?thesis by auto
qed

text \<open>
  C10. \<^verbatim>\<open>handleCallback\<close> reads the first entry of the Stage C response's
  \<^verbatim>\<open>DisplayClaims.xui\<close> without checking that there is one: when the three stages
  succeed and \<open>xui\<close> is the empty array, the call returns neither a record nor null, and
  fails with none of the connector's classified errors but with the TypeError of reading
  \<open>xid\<close> of undefined. Nothing is written.
\<close>

theorem handleCallback_empty_claims:
  assumes "getUserId env (params_state params) = Inr userId"
    and "exchangeCode env (params_state params) (js_optional (params_code params)) w = (Inr tokenData, w1)"
    and "get_prop tokenData ''access_token'' = Inr access_token"
    and "getUserToken env access_token w1 = (Inr userToken, w2)"
    and "getUser env userToken w2 = (Inr userInfo, w3)"
    and "get_prop userInfo ''DisplayClaims'' = Inr claims"
    and "get_prop claims ''xui'' = Inr (JArr [])"
  shows "handleCallback env params w = (Inl TypeError, w3) \<and>
         (\<forall>k. TypeError \<noteq> DiscordApiError k) \<and>
         connections w3 = connections w \<and> saves (new_events w w3) = []"
proof -
  from assms(2,4,5) obtain es where es: "events w3 = events w @ es" "connections w3 = connections w"
    "saves es = []"
    by (rule stages_effect)
  have "first_claim userInfo ''xid'' = Inl TypeError"
    using assms(6,7) by (rule first_claim_empty)
  with assms(1-5) have "handleCallback env params w = (Inl TypeError, w3)"
    by (intro handleCallback_no_claim)
  with es show ?thesis by simp
qed

theorem handleCallback_empty_claims_witness:
  "get_prop no_claims_body ''DisplayClaims'' = Inr (JObj [(''xui'', JArr [])]) \<and>
   get_prop (JObj [(''xui'', JArr [])]) ''xui'' = Inr (JArr []) \<and>
   fst (handleCallback no_claims_env u1_callback empty_world) = Inl TypeError \<and>
   connections (snd (handleCallback no_claims_env u1_callback empty_world)) = [] \<and>
   fetched_urls (events (snd (handleCallback no_claims_env u1_callback empty_world))) =
     [tokenUrl, userAuthUrl, userInfoUrl]"
proof -
  have u: "getUserId no_claims_env (params_state u1_callback) = Inr ''u1''"
    and a: "exchangeCode no_claims_env (params_state u1_callback)
        (js_optional (params_code u1_callback)) w =
      (Inr stage_a_body, emit (Fetch (exchangeCode_request no_claims_env (JStr ''abc123''))) w)"
    and b: "getUserToken no_claims_env (JStr ''AT1'') w =
      (Inr (JStr ''ST1''), emit (Fetch (getUserToken_request (JStr ''AT1''))) w)"
    for w
    unfolding no_claims_env_def by (rule scenario_run)+
  have c: "getUser no_claims_env (JStr ''ST1'') w =
      (Inr no_claims_body, emit (Fetch (getUser_request (JStr ''ST1''))) w)" for w
    by (simp add: no_claims_env_def no_claims_body_def scenario_stage_c)
  have d: "get_prop no_claims_body ''DisplayClaims'' = Inr (JObj [(''xui'', JArr [])])"
    by (simp add: no_claims_body_def)
  have x: "get_prop (JObj [(''xui'', JArr [])]) ''xui'' = Inr (JArr [])"
    by simp
  from handleCallback_empty_claims [OF u a happy_run(3) b c d x, of empty_world]
  show ?thesis
    using d x
    by (simp add: empty_world_def exchangeCode_request_def getUserToken_request_def
        getUser_request_def getTokenUrl_def url_toString_def new_URL_def)
qed

end
